theory Spec2Isabelle
  imports Main "HOL-Library.Word" "HOL-Library.Signed_Division"
begin

section \<open>C integer types\<close>

text \<open>
  The two front ends (\<^verbatim>\<open>src/linux-mpu9150/imu.c\<close>, the console program, and
  \<^verbatim>\<open>src/mpu9150_node.cpp\<close>, the publishing node) are modelled on an LP64 Linux
  with glibc: \<^verbatim>\<open>short\<close> has 16 bits, \<^verbatim>\<open>int\<close> 32 and \<^verbatim>\<open>long\<close> 64. Arithmetic on
  words wraps; signed readings are taken with \<open>sint\<close>. The sum of two \<^verbatim>\<open>long\<close>
  values that came out of \<^verbatim>\<open>atoi\<close> cannot overflow 64 bits, so no undefined
  behaviour is hidden by the wrap-around of \<open>+\<close> in \<open>set_cal\<close>. Where \<^verbatim>\<open>long\<close> has
  32 bits the same sum can overflow once it leaves the range of an \<^verbatim>\<open>int\<close>, which C
  leaves undefined; such a platform is outside this model.
\<close>

type_synonym c_short = "16 word"
type_synonym c_int = "32 word"
type_synonym c_uint = "32 word"
type_synonym c_long = "64 word"
type_synonym c_ulong = "64 word"

text \<open>C's \<^verbatim>\<open>/\<close> on signed operands truncates towards zero.\<close>

definition long_div :: "c_long \<Rightarrow> c_long \<Rightarrow> c_long" where
  "long_div a b = word_of_int (sint a sdiv sint b)"

definition int_div :: "c_int \<Rightarrow> c_int \<Rightarrow> c_int" where
  "int_div a b = word_of_int (sint a sdiv sint b)"

section \<open>Data model\<close>

text \<open>
  Modelled from the spec: \<^verbatim>\<open>caldata_t\<close> is declared in \<^verbatim>\<open>mpu9150.h\<close>, which is not
  among the sources. The spec (section 3) gives a calibration entry three offsets and
  three ranges, each a signed 16-bit integer, and \<open>set_cal\<close> stores \<^verbatim>\<open>(short)\<close> values
  into \<^verbatim>\<open>cal.offset[0..2]\<close> and \<^verbatim>\<open>cal.range[0..2]\<close>. The arrays are lists of length 3.
\<close>

record caldata_t =
  offset :: "c_short list"
  range_c :: "c_short list"

text \<open>
  Everything the programs do to the outside is a call to a collaborator (the driver,
  libc output, the delay of \<^verbatim>\<open>linux_glue\<close>, the ROS transport). A run is the list of
  these calls, oldest first. Samples are floating point and stay abstract: an event
  that consumes a sample carries the number of the \<^verbatim>\<open>mpu9150_read\<close> call that filled
  \<^verbatim>\<open>mpu\<close>.
\<close>

datatype event =
    Perror string
  | Printf string
  | Mpu9150_set_debug c_int
  | Mpu9150_init c_int c_int c_int
  | Mpu9150_set_accel_cal caldata_t
  | Mpu9150_set_mag_cal caldata_t
  | Linux_delay_ms c_ulong
  | Mpu9150_read
  | Print_fused_euler_angles nat
  | Mpu9150_exit
  | Ros_info nat nat
  | Publish "(nat \<times> nat) option"
  | SpinOnce
  | Rate_sleep

section \<open>libc: \<^verbatim>\<open>fgets\<close> and \<^verbatim>\<open>atoi\<close>\<close>

text \<open>
  An open stream is the list of characters not yet read. \<^verbatim>\<open>fgets(buff, n, f)\<close> fails
  at end of file; otherwise it moves at most \<open>n - 1\<close> characters into the buffer and
  stops after a newline. The result is the buffer's new contents and the rest of the
  stream.
\<close>

fun fgets_take :: "nat \<Rightarrow> string \<Rightarrow> string \<times> string" where
  "fgets_take 0 s = ([], s)"
| "fgets_take (Suc k) [] = ([], [])"
| "fgets_take (Suc k) (c # s) =
     (if c = CHR 0x0A then ([c], s)
      else (case fgets_take k s of (b, r) \<Rightarrow> (c # b, r)))"

definition fgets :: "nat \<Rightarrow> string \<Rightarrow> (string \<times> string) option" where
  "fgets n f = (if f = [] then None else Some (fgets_take (n - 1) f))"

text \<open>A C string ends at its first NUL; a NUL read from the file cuts the buffer short.\<close>

definition c_str :: "string \<Rightarrow> string" where
  "c_str b = takeWhile (\<lambda>c. c \<noteq> CHR 0x00) b"

definition isspace :: "char \<Rightarrow> bool" where
  "isspace c \<longleftrightarrow> c \<in> set [CHR 0x20, CHR 0x09, CHR 0x0A, CHR 0x0B, CHR 0x0C, CHR 0x0D]"

definition isdigit :: "char \<Rightarrow> bool" where
  "isdigit c \<longleftrightarrow> 48 \<le> (of_char c :: int) \<and> (of_char c :: int) \<le> 57"

fun digits_value :: "int \<Rightarrow> string \<Rightarrow> int" where
  "digits_value acc [] = acc"
| "digits_value acc (c # cs) =
     (if isdigit c then digits_value (10 * acc + (of_char c - 48)) cs else acc)"

text \<open>
  glibc's \<^verbatim>\<open>strtol(s, NULL, 10)\<close>: white space, an optional sign, decimal digits; no
  digits give 0; a value outside \<^verbatim>\<open>long\<close> is clamped to \<^verbatim>\<open>LONG_MIN\<close> or \<^verbatim>\<open>LONG_MAX\<close>.
  The result is the mathematical value.
\<close>

definition LONG_MAX :: int where
  "LONG_MAX = 2 ^ 63 - 1"

definition LONG_MIN :: int where
  "LONG_MIN = - (2 ^ 63)"

definition strtol :: "string \<Rightarrow> int" where
  "strtol s =
     (case dropWhile isspace s of
        [] \<Rightarrow> 0
      | c # r \<Rightarrow>
          if c = CHR ''-'' then max LONG_MIN (- digits_value 0 r)
          else if c = CHR ''+'' then min LONG_MAX (digits_value 0 r)
          else min LONG_MAX (digits_value 0 (c # r)))"

text \<open>glibc's \<^verbatim>\<open>atoi(s)\<close> is \<^verbatim>\<open>(int) strtol(s, NULL, 10)\<close>: the low 32 bits.\<close>

definition atoi :: "string \<Rightarrow> c_int" where
  "atoi b = word_of_int (strtol (c_str b))"

section \<open>\<^verbatim>\<open>set_cal\<close> of \<^verbatim>\<open>imu.c\<close>\<close>

text \<open>
  The loop \<^verbatim>\<open>for (i = 0; i < 6; i++)\<close> of \<open>set_cal\<close>: \<open>val\<close> holds \<^verbatim>\<open>val[0..i-1]\<close>. It
  returns the final \<open>i\<close>, the values stored, and what was printed. A \<^verbatim>\<open>break\<close> leaves
  \<open>i\<close> below 6. The \<^verbatim>\<open>int\<close> from \<^verbatim>\<open>atoi\<close> is sign-extended into the \<^verbatim>\<open>long\<close> array.
\<close>

function read_vals :: "nat \<Rightarrow> string \<Rightarrow> c_long list \<Rightarrow> nat \<times> c_long list \<times> event list" where
  "read_vals i f val =
     (if i < 6 then
        (case fgets 20 f of
           None \<Rightarrow> (i, val, [Printf ''Not enough lines in calibration file\<newline>''])
         | Some (buff, f') \<Rightarrow>
             (let v = (scast (atoi buff) :: c_long) in
              if v = 0
              then (i, val @ [v], [Printf (''Invalid cal value: '' @ c_str buff @ ''\<newline>'')])
              else read_vals (Suc i) f' (val @ [v])))
      else (i, val, []))"
  by pat_completeness auto
termination
  by (relation "measure (\<lambda>(i, f, val). 6 - i)") auto

text \<open>
  Lines 299 to 305 of \<^verbatim>\<open>imu.c\<close>: the sum and the quotient are computed in \<^verbatim>\<open>long\<close>,
  the cast to \<^verbatim>\<open>short\<close> keeps the low 16 bits, and the range subtracts the offset as
  stored (a \<^verbatim>\<open>short\<close>, sign-extended back to \<^verbatim>\<open>long\<close>).
\<close>

definition cal_offset :: "c_long list \<Rightarrow> nat \<Rightarrow> c_short" where
  "cal_offset val k = ucast (long_div (val ! (2 * k) + val ! (2 * k + 1)) 2)"

definition cal_range :: "c_long list \<Rightarrow> nat \<Rightarrow> c_short" where
  "cal_range val k = ucast (val ! (2 * k + 1) - scast (cal_offset val k))"

definition make_cal :: "c_long list \<Rightarrow> caldata_t" where
  "make_cal val =
     \<lparr>offset = [cal_offset val 0, cal_offset val 1, cal_offset val 2],
      range_c = [cal_range val 0, cal_range val 1, cal_range val 2]\<rparr>"

text \<open>
  The file system is a map from paths to file contents; \<^verbatim>\<open>fopen\<close> fails where it is
  undefined. \<^verbatim>\<open>cal_file\<close> is \<open>None\<close> for a NULL pointer. The result is the return
  value and the calls made, in order.
\<close>

definition open_cal :: "(string \<Rightarrow> string option) \<Rightarrow> c_int \<Rightarrow> string option
    \<Rightarrow> (c_int \<times> event list) + string" where
  "open_cal fs mag cal_file =
     (case cal_file of
        Some path \<Rightarrow>
          (case fs path of
             None \<Rightarrow> Inl (- 1, [Perror ''open(<cal-file>)''])
           | Some f \<Rightarrow> Inr f)
      | None \<Rightarrow>
          if mag \<noteq> 0 then
            (case fs ''./magcal.txt'' of
               None \<Rightarrow> Inl (0, [Printf ''Default magcal.txt not found\<newline>''])
             | Some f \<Rightarrow> Inr f)
          else
            (case fs ''./accelcal.txt'' of
               None \<Rightarrow> Inl (0, [Printf ''Default accelcal.txt not found\<newline>''])
             | Some f \<Rightarrow> Inr f))"

definition set_cal :: "(string \<Rightarrow> string option) \<Rightarrow> c_int \<Rightarrow> string option
    \<Rightarrow> c_int \<times> event list" where
  "set_cal fs mag cal_file =
     (case open_cal fs mag cal_file of
        Inl r \<Rightarrow> r
      | Inr f \<Rightarrow>
          (case read_vals 0 f [] of
             (i, val, out) \<Rightarrow>
               if i \<noteq> 6 then (- 1, out)
               else if mag \<noteq> 0 then (0, out @ [Mpu9150_set_mag_cal (make_cal val)])
               else (0, out @ [Mpu9150_set_accel_cal (make_cal val)])))"

section \<open>\<^verbatim>\<open>set_cal\<close> of \<^verbatim>\<open>mpu9150_node.cpp\<close>\<close>

text \<open>The node carries its own copy of the function (lines 261 to 331).\<close>

function node_read_vals :: "nat \<Rightarrow> string \<Rightarrow> c_long list \<Rightarrow> nat \<times> c_long list \<times> event list" where
  "node_read_vals i f val =
     (if i < 6 then
        (case fgets 20 f of
           None \<Rightarrow> (i, val, [Printf ''Not enough lines in calibration file\<newline>''])
         | Some (buff, f') \<Rightarrow>
             (let v = (scast (atoi buff) :: c_long) in
              if v = 0
              then (i, val @ [v], [Printf (''Invalid cal value: '' @ c_str buff @ ''\<newline>'')])
              else node_read_vals (Suc i) f' (val @ [v])))
      else (i, val, []))"
  by pat_completeness auto
termination
  by (relation "measure (\<lambda>(i, f, val). 6 - i)") auto

definition node_make_cal :: "c_long list \<Rightarrow> caldata_t" where
  "node_make_cal val =
     (let o0 = (ucast (long_div (val ! 0 + val ! 1) 2) :: c_short);
          o1 = (ucast (long_div (val ! 2 + val ! 3) 2) :: c_short);
          o2 = (ucast (long_div (val ! 4 + val ! 5) 2) :: c_short)
      in \<lparr>offset = [o0, o1, o2],
          range_c = [ucast (val ! 1 - scast o0), ucast (val ! 3 - scast o1),
                     ucast (val ! 5 - scast o2)]\<rparr>)"

definition node_set_cal :: "(string \<Rightarrow> string option) \<Rightarrow> c_int \<Rightarrow> string option
    \<Rightarrow> c_int \<times> event list" where
  "node_set_cal fs mag cal_file =
     (case
        (case cal_file of
           Some path \<Rightarrow>
             (case fs path of
                None \<Rightarrow> Inl (- 1, [Perror ''open(<cal-file>)''])
              | Some f \<Rightarrow> Inr f)
         | None \<Rightarrow>
             if mag \<noteq> 0 then
               (case fs ''./magcal.txt'' of
                  None \<Rightarrow> Inl (0, [Printf ''Default magcal.txt not found\<newline>''])
                | Some f \<Rightarrow> Inr f)
             else
               (case fs ''./accelcal.txt'' of
                  None \<Rightarrow> Inl (0, [Printf ''Default accelcal.txt not found\<newline>''])
                | Some f \<Rightarrow> Inr f))
      of
        Inl r \<Rightarrow> r
      | Inr f \<Rightarrow>
          (case node_read_vals 0 f [] of
             (i, val, out) \<Rightarrow>
               if i \<noteq> 6 then (- 1, out)
               else if mag \<noteq> 0 then (0, out @ [Mpu9150_set_mag_cal (node_make_cal val)])
               else (0, out @ [Mpu9150_set_accel_cal (node_make_cal val)])))"

section \<open>The environment of a run\<close>

text \<open>
  What the collaborators answer is fixed by the environment: the result of
  \<^verbatim>\<open>sigaction\<close> and of \<^verbatim>\<open>mpu9150_init\<close>, the result of the \<open>k\<close>-th call of
  \<^verbatim>\<open>mpu9150_read\<close> and of \<^verbatim>\<open>ros::ok\<close> (counted from 0), and the moment SIGINT arrives:
  \<open>sigint_at = Some k\<close> delivers it once \<open>k\<close> collaborator calls have been made,
  \<open>None\<close> never. The configuration is what option parsing leaves in the locals of
  \<^verbatim>\<open>main\<close>; a \<^verbatim>\<open>char *\<close> that is NULL is \<open>None\<close>.
\<close>

record env =
  sigaction_rc :: c_int
  init_rc :: c_int
  read_rc :: "nat \<Rightarrow> c_int"
  ros_ok :: "nat \<Rightarrow> bool"
  sigint_at :: "nat option"

record config =
  i2c_bus :: c_int
  sample_rate :: c_int
  yaw_mix_factor :: c_int
  verbose :: c_int
  mag_cal_file :: "string option"
  accel_cal_file :: "string option"

record world =
  trace :: "event list"
  reads :: nat

definition call :: "event \<Rightarrow> world \<Rightarrow> world" where
  "call ev w = w\<lparr>trace := trace w @ [ev]\<rparr>"

definition calls :: "event list \<Rightarrow> world \<Rightarrow> world" where
  "calls evs w = w\<lparr>trace := trace w @ evs\<rparr>"

text \<open>
  \<^verbatim>\<open>int done\<close> is global, starts at 0 and is written by \<open>sigint_handler\<close> only
  (\<^verbatim>\<open>done = 1\<close>), so reading it tells whether SIGINT has arrived yet.
\<close>

definition done_flag :: "env \<Rightarrow> world \<Rightarrow> c_int" where
  "done_flag e w =
     (case sigint_at e of
        None \<Rightarrow> 0
      | Some k \<Rightarrow> if k \<le> length (trace w) then 1 else 0)"

definition mpu9150_read :: "env \<Rightarrow> world \<Rightarrow> c_int \<times> world" where
  "mpu9150_read e w = (read_rc e (reads w), (call Mpu9150_read w)\<lparr>reads := Suc (reads w)\<rparr>)"

section \<open>The console program: \<^verbatim>\<open>read_loop\<close> and \<^verbatim>\<open>main\<close> of \<^verbatim>\<open>imu.c\<close>\<close>

text \<open>
  Line 182: \<^verbatim>\<open>loop_delay = (1000 / sample_rate) - 2\<close> with \<^verbatim>\<open>unsigned int sample_rate\<close>.
  The quotient and the difference are unsigned 32-bit (the difference wraps below 2);
  the result is widened to \<^verbatim>\<open>unsigned long\<close>.
\<close>

definition loop_delay_of :: "c_uint \<Rightarrow> c_ulong" where
  "loop_delay_of rate = ucast (1000 div rate - 2)"

definition read_loop_body :: "env \<Rightarrow> c_ulong \<Rightarrow> world \<Rightarrow> world" where
  "read_loop_body e loop_delay w =
     (case mpu9150_read e w of
        (rc, w1) \<Rightarrow>
          call (Linux_delay_ms loop_delay)
            (if rc = 0 then call (Print_fused_euler_angles (reads w)) w1 else w1))"

partial_function (option) read_loop_while :: "env \<Rightarrow> c_ulong \<Rightarrow> world \<Rightarrow> world option" where
  "read_loop_while e loop_delay w =
     (if done_flag e w \<noteq> 0 then Some w
      else read_loop_while e loop_delay (read_loop_body e loop_delay w))"

declare read_loop_while.simps [code]

definition read_loop :: "env \<Rightarrow> c_uint \<Rightarrow> world \<Rightarrow> world option" where
  "read_loop e rate w =
     (if rate = 0 then Some w
      else
        (case read_loop_while e (loop_delay_of rate)
                (call (Linux_delay_ms (loop_delay_of rate))
                   (call (Printf ''\<newline>Entering read loop (ctrl-c to exit)\<newline>\<newline>'') w)) of
           None \<Rightarrow> None
         | Some w' \<Rightarrow> Some (call (Printf ''\<newline>\<newline>'') w')))"

text \<open>
  \<^verbatim>\<open>main\<close> from line 149 on. The result is the exit status of the process and the
  calls it made; \<open>None\<close> is a run that never ends. The return values of both
  \<open>set_cal\<close> calls are dropped, as in the source.
\<close>

definition main :: "env \<Rightarrow> (string \<Rightarrow> string option) \<Rightarrow> config \<Rightarrow> (c_int \<times> world) option" where
  "main e fs cfg =
     (if sigaction_rc e <s 0
      then Some (1, call (Perror ''sigaction(SIGINT)'') \<lparr>trace = [], reads = 0\<rparr>)
      else
        (let w2 = calls [Mpu9150_set_debug (verbose cfg),
                         Mpu9150_init (i2c_bus cfg) (sample_rate cfg) (yaw_mix_factor cfg)]
                    \<lparr>trace = [], reads = 0\<rparr>
         in if init_rc e \<noteq> 0 then Some (1, w2)
            else
              (let w3 = calls (snd (set_cal fs 0 (accel_cal_file cfg))) w2;
                   w4 = calls (snd (set_cal fs 1 (mag_cal_file cfg))) w3
               in case read_loop e (sample_rate cfg) w4 of
                    None \<Rightarrow> None
                  | Some w5 \<Rightarrow> Some (0, call Mpu9150_exit w5))))"

section \<open>The publishing node: \<^verbatim>\<open>main\<close> of \<^verbatim>\<open>mpu9150_node.cpp\<close>\<close>

text \<open>
  Line 183: the same expression with \<^verbatim>\<open>int sample_rate\<close>: signed division, then the
  conversion to \<^verbatim>\<open>unsigned long\<close> extends the sign.
\<close>

definition node_loop_delay_of :: "c_int \<Rightarrow> c_ulong" where
  "node_loop_delay_of rate = scast (int_div 1000 rate - 2)"

text \<open>
  The ROS set-up at the head of the node's \<^verbatim>\<open>main\<close> (lines 74 to 77: \<^verbatim>\<open>ros::init\<close>,
  the node handle, the publisher on \<^verbatim>\<open>imu_euler\<close> and \<^verbatim>\<open>ros::Rate loop_rate(10)\<close>)
  comes before everything modelled here and is left out. \<^verbatim>\<open>ros::ok\<close> is answered by
  the environment: \<open>register_sig_handler\<close> replaces the SIGINT handler, so the flag
  \<^verbatim>\<open>done\<close> and \<^verbatim>\<open>ros::ok\<close> are independent.

  One turn of \<^verbatim>\<open>while (ros::ok())\<close>, lines 194 to 215. \<^verbatim>\<open>msg\<close> is built empty in
  every turn and filled only after a read that returned 0; \<open>Publish None\<close> is the
  publication of the empty message, \<open>Publish (Some (k, n))\<close> that of the angles of read
  \<open>k\<close> followed by the counter \<open>n\<close>. \<^verbatim>\<open>count\<close> is kept as a natural number.
\<close>

definition node_loop_body :: "env \<Rightarrow> nat \<Rightarrow> world \<Rightarrow> world" where
  "node_loop_body e count w =
     (case mpu9150_read e w of
        (rc, w1) \<Rightarrow>
          (if rc = 0
           then calls [Ros_info (reads w) count, Publish (Some (reads w, count)), SpinOnce,
                       Rate_sleep] w1
           else calls [Publish None, SpinOnce, Rate_sleep] w1))"

partial_function (option) node_loop :: "env \<Rightarrow> nat \<Rightarrow> world \<Rightarrow> world option" where
  "node_loop e count w =
     (if ros_ok e count then node_loop e (Suc count) (node_loop_body e count w)
      else Some w)"

declare node_loop.simps [code]

definition node_main :: "env \<Rightarrow> (string \<Rightarrow> string option) \<Rightarrow> config \<Rightarrow> (c_int \<times> world) option" where
  "node_main e fs cfg =
     (if sigaction_rc e <s 0
      then Some (1, call (Perror ''sigaction(SIGINT)'') \<lparr>trace = [], reads = 0\<rparr>)
      else
        (let w2 = calls [Mpu9150_set_debug (verbose cfg),
                         Mpu9150_init (i2c_bus cfg) (sample_rate cfg) (yaw_mix_factor cfg)]
                    \<lparr>trace = [], reads = 0\<rparr>
         in if init_rc e \<noteq> 0 then Some (1, w2)
            else
              (let w3 = calls (snd (node_set_cal fs 0 (accel_cal_file cfg))) w2;
                   w4 = calls (snd (node_set_cal fs 1 (mag_cal_file cfg))) w3
               in if sample_rate cfg = 0 then Some (- 1, w4)
                  else
                    (case node_loop e 0
                            (calls [Printf ''\<newline>Entering MPU read loop (ctrl-c to exit)\<newline>\<newline>'',
                                    Linux_delay_ms (node_loop_delay_of (sample_rate cfg))] w4) of
                       None \<Rightarrow> None
                     | Some w5 \<Rightarrow> Some (0, w5)))))"

section \<open>The spec's formulas\<close>

text \<open>
  Section 4.2 of the spec: the delay in milliseconds is
  \<^verbatim>\<open>max(0, floor(1000/rate) - 2)\<close>.
\<close>

definition delayMs :: "int \<Rightarrow> int" where
  "delayMs rate = max 0 (1000 div rate - 2)"

text \<open>
  Section 3 of the spec: from the six values \<^verbatim>\<open>(minX, maxX, minY, maxY, minZ, maxZ)\<close>,
  \<^verbatim>\<open>offset = (min + max)/2\<close> and \<^verbatim>\<open>range = max - offset\<close> for each axis. The values are
  integers and the quotient is C's, which rounds towards zero.
\<close>

definition spec_offset :: "int list \<Rightarrow> nat \<Rightarrow> int" where
  "spec_offset v i = (v ! (2 * i) + v ! (2 * i + 1)) sdiv 2"

definition spec_range :: "int list \<Rightarrow> nat \<Rightarrow> int" where
  "spec_range v i = v ! (2 * i + 1) - spec_offset v i"

text \<open>
  A value reduced modulo \<open>2 ^ 16\<close> into the range of a \<^verbatim>\<open>short\<close>, and the test that
  it is in that range already.
\<close>

definition to_short :: "int \<Rightarrow> int" where
  "to_short z = (z + 32768) mod 65536 - 32768"

definition fits_short :: "int \<Rightarrow> bool" where
  "fits_short z \<longleftrightarrow> - 32768 \<le> z \<and> z \<le> 32767"

section \<open>Reading a calibration file, line by line\<close>

text \<open>
  The lines that up to \<open>n\<close> successive calls \<^verbatim>\<open>fgets(buff, 20, f)\<close> deliver: a line
  of the file longer than 19 characters comes in several pieces. \<open>cal_values\<close> are
  the integers \<^verbatim>\<open>atoi\<close> finds on the first six of them.
\<close>

primrec first_lines :: "nat \<Rightarrow> string \<Rightarrow> string list" where
  "first_lines 0 f = []"
| "first_lines (Suc n) f =
     (case fgets 20 f of None \<Rightarrow> [] | Some (buff, f') \<Rightarrow> buff # first_lines n f')"

definition cal_values :: "string \<Rightarrow> int list" where
  "cal_values f = map (\<lambda>b. sint (atoi b)) (first_lines 6 f)"



text \<open>
  The file \<open>set_cal\<close> opens: the path given, or the default name of the sensor. The
  setter it calls on success: \<^verbatim>\<open>mpu9150_set_mag_cal\<close> when \<open>mag\<close> is not 0, else
  \<^verbatim>\<open>mpu9150_set_accel_cal\<close>.
\<close>

definition cal_path :: "c_int \<Rightarrow> string option \<Rightarrow> string" where
  "cal_path mag cal_file =
     (case cal_file of
        Some path \<Rightarrow> path
      | None \<Rightarrow> if mag \<noteq> 0 then ''./magcal.txt'' else ''./accelcal.txt'')"

definition driver_setter :: "c_int \<Rightarrow> caldata_t \<Rightarrow> event" where
  "driver_setter mag cal = (if mag \<noteq> 0 then Mpu9150_set_mag_cal cal else Mpu9150_set_accel_cal cal)"

section \<open>One turn of each loop, as a list of calls\<close>

text \<open>
  The calls of one turn of \<^verbatim>\<open>while (!done)\<close> in \<open>read_loop\<close>, where \<open>k\<close> numbers the
  \<^verbatim>\<open>mpu9150_read\<close> call and \<open>d\<close> is \<^verbatim>\<open>loop_delay\<close>; and the calls of one turn of
  \<^verbatim>\<open>while (ros::ok())\<close> in the node, where \<open>count\<close> is the counter of the turn.
\<close>

definition console_turn :: "env \<Rightarrow> c_ulong \<Rightarrow> nat \<Rightarrow> event list" where
  "console_turn e d k =
     Mpu9150_read # (if read_rc e k = 0 then [Print_fused_euler_angles k] else [])
       @ [Linux_delay_ms d]"

definition node_turn :: "env \<Rightarrow> nat \<Rightarrow> nat \<Rightarrow> event list" where
  "node_turn e count k =
     Mpu9150_read
       # (if read_rc e k = 0 then [Ros_info k count, Publish (Some (k, count))] else [Publish None])
       @ [SpinOnce, Rate_sleep]"

text \<open>
  The calls of a whole \<open>read_loop\<close> that makes \<open>n\<close> turns: none at rate 0; else the
  banner, the first delay, the turns, and the two newlines printed after the loop.
\<close>

definition read_loop_calls :: "env \<Rightarrow> c_uint \<Rightarrow> nat \<Rightarrow> event list" where
  "read_loop_calls e rate n =
     (if rate = 0 then []
      else [Printf ''\<newline>Entering read loop (ctrl-c to exit)\<newline>\<newline>'',
            Linux_delay_ms (loop_delay_of rate)]
           @ concat (map (console_turn e (loop_delay_of rate)) [0..<n])
           @ [Printf ''\<newline>\<newline>''])"

text \<open>
  The calls \<open>set_cal\<close> can make: a diagnostic or a setter. The calls that sample: a
  read of the driver, or a dispatch to the sink (the console print, the node's log
  line and publication).
\<close>

fun is_cal_call :: "event \<Rightarrow> bool" where
  "is_cal_call (Perror s) = True"
| "is_cal_call (Printf s) = True"
| "is_cal_call (Mpu9150_set_accel_cal c) = True"
| "is_cal_call (Mpu9150_set_mag_cal c) = True"
| "is_cal_call ev = False"

fun samples :: "event \<Rightarrow> bool" where
  "samples Mpu9150_read = True"
| "samples (Print_fused_euler_angles k) = True"
| "samples (Ros_info k n) = True"
| "samples (Publish m) = True"
| "samples ev = False"

section \<open>Scenarios\<close>

text \<open>A file system that holds one file, and the calibration files of the examples.\<close>

definition one_file :: "string \<Rightarrow> string \<Rightarrow> string \<Rightarrow> string option" where
  "one_file path content p = (if p = path then Some content else None)"

definition spec_file :: string where
  "spec_file = ''100\<newline>300\<newline>-50\<newline>50\<newline>10\<newline>20\<newline>''"

definition wide_file :: string where
  "wide_file = ''40000\<newline>40000\<newline>1\<newline>1\<newline>1\<newline>1\<newline>''"

definition big_file :: string where
  "big_file = ''40000\<newline>40000\<newline>-70000\<newline>-10\<newline>1\<newline>1\<newline>''"





text \<open>
  The answers of a collaborator, call by call: those listed, then a default. What
  \<^verbatim>\<open>ros::ok\<close> answers when it holds for the first \<open>n\<close> calls. The exit status and the
  calls of a run. The defaults of \<^verbatim>\<open>local_defaults.h\<close>, which is not among the
  sources, are those of the usage text: bus 1, 10 Hz, yaw mix factor 4.
\<close>

definition answers :: "'a list \<Rightarrow> 'a \<Rightarrow> nat \<Rightarrow> 'a" where
  "answers xs d k = (if k < length xs then xs ! k else d)"

definition first_calls :: "nat \<Rightarrow> nat \<Rightarrow> bool" where
  "first_calls n k \<longleftrightarrow> k < n"

definition run_status :: "(c_int \<times> world) option \<Rightarrow> c_int option" where
  "run_status r = map_option fst r"

definition run_trace :: "(c_int \<times> world) option \<Rightarrow> event list" where
  "run_trace r = (case r of None \<Rightarrow> [] | Some (st, w) \<Rightarrow> trace w)"

fun is_publish :: "event \<Rightarrow> bool" where
  "is_publish (Publish m) = True"
| "is_publish ev = False"

fun is_print :: "event \<Rightarrow> bool" where
  "is_print (Print_fused_euler_angles k) = True"
| "is_print ev = False"

definition default_config :: config where
  "default_config =
     \<lparr>i2c_bus = 1, sample_rate = 10, yaw_mix_factor = 4, verbose = 0,
      mag_cal_file = None, accel_cal_file = None\<rparr>"

fun is_delay :: "event \<Rightarrow> bool" where
  "is_delay (Linux_delay_ms d) = True"
| "is_delay ev = False"

text \<open>
  Three runs. In the first the driver has no sample for five reads and one at the
  sixth; the node's \<^verbatim>\<open>ros::ok\<close> holds six times, and SIGINT reaches the console
  program during its sixth turn. In the second SIGINT arrives before anything
  else. In the third the loops make a few turns.
\<close>

definition not_ready_5_then_fresh :: env where
  "not_ready_5_then_fresh =
     \<lparr>sigaction_rc = 0, init_rc = 0, read_rc = answers [- 1, - 1, - 1, - 1, - 1, 0] (- 1),
      ros_ok = first_calls 6, sigint_at = Some 19\<rparr>"

definition sigint_at_start :: env where
  "sigint_at_start =
     \<lparr>sigaction_rc = 0, init_rc = 0, read_rc = answers [] 0,
      ros_ok = first_calls 3, sigint_at = Some 0\<rparr>"

definition two_turns :: env where
  "two_turns =
     \<lparr>sigaction_rc = 0, init_rc = 0, read_rc = answers [0, - 1] 0,
      ros_ok = first_calls 2, sigint_at = Some 11\<rparr>"

section \<open>The two copies of \<open>set_cal\<close>\<close>

declare read_vals.simps [simp del]
declare node_read_vals.simps [simp del]

lemma node_read_vals_eq: "node_read_vals i f val = read_vals i f val"
proof (induction i f val rule: read_vals.induct)
  case (1 i f val)
  show ?case
    by (subst node_read_vals.simps, subst read_vals.simps)
       (auto simp: Let_def 1 split: option.splits)
qed

lemma node_make_cal_eq: "node_make_cal val = make_cal val"
  by (simp add: node_make_cal_def make_cal_def cal_offset_def cal_range_def Let_def)

text \<open>
  C9. The calibration loader of the console program and the one of the publishing
  node behave alike: on every file system, every \<open>mag\<close> and every path (or NULL)
  they return the same value and make the same calls, so they print the same
  diagnostics and hand the same entry to the same driver setter.
\<close>

theorem set_cal_variants_agree: "node_set_cal fs mag cal_file = set_cal fs mag cal_file"
  by (simp add: node_set_cal_def set_cal_def open_cal_def node_read_vals_eq node_make_cal_eq
      cong: option.case_cong sum.case_cong prod.case_cong if_cong)

section \<open>The delay between samples\<close>

lemma uint_loop_delay_of:
  assumes "1 \<le> r" "r \<le> 500"
  shows "uint (loop_delay_of (word_of_int r)) = 1000 div r - 2"
proof -
  have r: "uint (word_of_int r :: c_uint) = r"
    using assms by (simp add: uint_word_of_int take_bit_int_eq_self)
  have q: "uint (1000 div (word_of_int r :: c_uint)) = 1000 div r"
    by (simp add: uint_div r)
  have "1000 div 500 \<le> 1000 div r"
    using assms by (intro zdiv_mono2) auto
  then have two: "2 \<le> 1000 div r" by simp
  have "uint (2 :: c_uint) \<le> uint (1000 div (word_of_int r :: c_uint))"
    using two by (simp add: q)
  then have d: "uint (1000 div (word_of_int r :: c_uint) - 2) = 1000 div r - 2"
    by (simp add: uint_sub_lem [THEN iffD1] q)
  have "uint (loop_delay_of (word_of_int r)) = uint (1000 div (word_of_int r :: c_uint) - 2)"
    unfolding loop_delay_of_def by (rule uint_up_ucast) (simp add: is_up)
  then show ?thesis by (simp add: d)
qed

lemma delayMs_eq: "1 \<le> r \<Longrightarrow> r \<le> 500 \<Longrightarrow> delayMs r = 1000 div r - 2"
  unfolding delayMs_def using zdiv_mono2 [of 1000 r 500] by simp

lemma delayMs_antimono: "0 < r1 \<Longrightarrow> r1 \<le> r2 \<Longrightarrow> delayMs r2 \<le> delayMs r1"
  unfolding delayMs_def using zdiv_mono2 [of 1000 r1 r2] by simp

text \<open>
  C4. For every sample rate from 2 to 50 the delay that \<open>read_loop\<close> computes is the
  spec's \<open>delayMs\<close>, that is \<^verbatim>\<open>max(0, floor(1000/rate) - 2)\<close>, and it is not negative;
  over that range a higher rate never gives a longer delay; and rate 10 gives 98.
\<close>

theorem loop_delay_is_delayMs:
  "(2 \<le> r \<and> r \<le> 50 \<longrightarrow> uint (loop_delay_of (word_of_int r)) = delayMs r \<and> 0 \<le> delayMs r)
   \<and> (2 \<le> r1 \<and> r1 \<le> r2 \<and> r2 \<le> 50 \<longrightarrow>
          uint (loop_delay_of (word_of_int r2)) \<le> uint (loop_delay_of (word_of_int r1)))
   \<and> loop_delay_of 10 = 98 \<and> delayMs 10 = 98"
proof -
  have a: "uint (loop_delay_of (word_of_int r)) = delayMs r" if "2 \<le> r" "r \<le> 50" for r
    using that by (simp add: uint_loop_delay_of delayMs_eq)
  have b: "0 \<le> delayMs r" for r
    by (simp add: delayMs_def)
  have c: "uint (loop_delay_of (word_of_int r2)) \<le> uint (loop_delay_of (word_of_int r1))"
    if "2 \<le> r1" "r1 \<le> r2" "r2 \<le> 50"
    using that by (simp add: a delayMs_antimono)
  have d: "loop_delay_of 10 = 98"
    by (simp add: loop_delay_of_def)
  have e: "delayMs 10 = 98"
    by (simp add: delayMs_def)
  show ?thesis using a b c d e by blast
qed

theorem loop_delay_is_delayMs_witness:
  "(2::int) \<le> 20 \<and> (20::int) \<le> 50 \<and> (2::int) \<le> 50
   \<and> uint (loop_delay_of (word_of_int 20)) = delayMs 20 \<and> delayMs 20 = 48
   \<and> uint (loop_delay_of (word_of_int 50)) \<le> uint (loop_delay_of (word_of_int 2))"
  using loop_delay_is_delayMs [of 20 2 50] by (simp add: delayMs_def)

section \<open>What \<open>set_cal\<close> reads\<close>




lemma scast_atoi_eq_0 [simp]: "(scast (w :: c_int) :: c_long) = 0 \<longleftrightarrow> w = 0"
proof -
  have "sint (scast w :: c_long) = sint w"
    by (rule sint_up_scast) (simp add: is_up)
  then show ?thesis
    by (metis signed_eq_0_iff)
qed

lemma open_cal_Inr: "fs (cal_path mag cal_file) = Some f \<Longrightarrow> open_cal fs mag cal_file = Inr f"
  by (cases cal_file; cases "mag = 0") (simp_all add: open_cal_def cal_path_def)

lemma read_vals_all:
  "i \<le> 6 \<Longrightarrow> length (first_lines (6 - i) f) = 6 - i \<Longrightarrow>
   \<forall>b \<in> set (first_lines (6 - i) f). atoi b \<noteq> 0 \<Longrightarrow>
   read_vals i f val = (6, val @ map (\<lambda>b. scast (atoi b)) (first_lines (6 - i) f), [])"
proof (induction i f val rule: read_vals.induct)
  case (1 i f val)
  show ?case
  proof (cases "i < 6")
    case False
    with 1(2) show ?thesis by (subst read_vals.simps) simp
  next
    case True
    then obtain n where n: "6 - i = Suc n" "6 - Suc i = n"
      by (cases "6 - i") auto
    with 1(3) obtain buff f' where g: "fgets 20 f = Some (buff, f')"
      by (auto split: option.splits)
    from 1(3,4) n g have nz: "atoi buff \<noteq> 0" and len: "length (first_lines (6 - Suc i) f') = 6 - Suc i"
      and rest: "\<forall>b \<in> set (first_lines (6 - Suc i) f'). atoi b \<noteq> 0"
      by auto
    have "read_vals (Suc i) f' (val @ [scast (atoi buff)]) =
        (6, (val @ [scast (atoi buff)]) @ map (\<lambda>b. scast (atoi b)) (first_lines (6 - Suc i) f'), [])"
      using True g nz len rest by (intro 1(1)) auto
    then show ?thesis
      using True g nz n by (subst read_vals.simps) (simp add: Let_def)
  qed
qed


lemma set_cal_loaded:
  assumes "fs (cal_path mag cal_file) = Some f"
    and "length (first_lines 6 f) = 6"
    and "\<forall>b \<in> set (first_lines 6 f). atoi b \<noteq> 0"
  shows "set_cal fs mag cal_file =
    (0, [driver_setter mag (make_cal (map (\<lambda>b. scast (atoi b)) (first_lines 6 f)))])"
  using read_vals_all [of 0 f "[]"] assms
  by (simp add: set_cal_def open_cal_Inr driver_setter_def)


lemma length_cal_values [simp]: "length (cal_values f) = length (first_lines 6 f)"
  by (simp add: cal_values_def)

lemma zero_in_cal_values: "0 \<in> set (cal_values f) \<longleftrightarrow> (\<exists>b \<in> set (first_lines 6 f). atoi b = 0)"
  by (auto simp: cal_values_def signed_eq_0_iff image_iff)

lemma read_vals_out:
  "snd (snd (read_vals i f val)) = [] \<or> (\<exists>s. snd (snd (read_vals i f val)) = [Printf s])"
proof (induction i f val rule: read_vals.induct)
  case (1 i f val)
  show ?case
  proof (cases "i < 6")
    case False
    then show ?thesis by (subst read_vals.simps, subst (2) read_vals.simps) simp
  next
    case True
    show ?thesis
    proof (cases "fgets 20 f")
      case None
      with True show ?thesis by (subst read_vals.simps, subst (2) read_vals.simps) simp
    next
      case (Some p)
      obtain buff f' where p: "p = (buff, f')" by (cases p)
      show ?thesis
      proof (cases "atoi buff = 0")
        case z: True
        with True Some p show ?thesis
          by (subst read_vals.simps, subst (2) read_vals.simps) (simp add: Let_def)
      next
        case nz: False
        have "snd (snd (read_vals (Suc i) f' (val @ [scast (atoi buff)]))) = [] \<or>
            (\<exists>s. snd (snd (read_vals (Suc i) f' (val @ [scast (atoi buff)]))) = [Printf s])"
          using True Some p nz by (intro 1) auto
        then show ?thesis
          using True Some p nz by (subst read_vals.simps, subst (2) read_vals.simps) (simp add: Let_def)
      qed
    qed
  qed
qed

lemma open_cal_Inl:
  "open_cal fs mag cal_file = Inl r \<Longrightarrow> list_all is_cal_call (snd r)"
  by (auto simp: open_cal_def split: option.splits if_splits)

lemma set_cal_calls: "list_all is_cal_call (snd (set_cal fs mag cal_file))"
proof (cases "open_cal fs mag cal_file")
  case (Inl r)
  then show ?thesis
    using open_cal_Inl [OF Inl] by (simp add: set_cal_def)
next
  case (Inr f)
  obtain i val out where rv: "read_vals 0 f [] = (i, val, out)"
    by (cases "read_vals 0 f []")
  with read_vals_out [of 0 f "[]"] have "list_all is_cal_call out"
    by auto
  with Inr rv show ?thesis
    by (simp add: set_cal_def)
qed

lemma cal_call_no_sample: "is_cal_call ev \<Longrightarrow> \<not> samples ev"
  by (cases ev) simp_all

lemma set_cal_no_sample: "filter samples (snd (set_cal fs mag cal_file)) = []"
  using set_cal_calls [of fs mag cal_file] cal_call_no_sample
  by (auto simp: filter_empty_conv list_all_iff)

section \<open>The entry handed to the driver\<close>

lemma sint_long_of_int: "sint (scast (w :: c_int) :: c_long) = sint w"
  by (rule sint_up_scast) (simp add: is_up)

lemma sint_int_bounds: "- (2 ^ 31) \<le> sint (w :: c_int) \<and> sint w < 2 ^ 31"
  using sint_ge [of w] sint_lt [of w] by simp

lemma long_sum_exact:
  "sint ((scast (a :: c_int) :: c_long) + scast (b :: c_int)) = sint a + sint b"
proof -
  have "- (2 ^ 63) \<le> sint a + sint b" "sint a + sint b < 2 ^ 63"
    using sint_int_bounds [of a] sint_int_bounds [of b] by simp_all
  then show ?thesis
    by (simp add: sint_word_ariths sint_long_of_int signed_take_bit_int_eq_self)
qed

lemma short_of_long: "(ucast (word_of_int z :: c_long) :: c_short) = word_of_int z"
  by (rule ucast_down_wi) (simp add: is_down)

lemma offset_word:
  "(ucast (long_div (scast (a :: c_int) + scast (b :: c_int)) 2) :: c_short)
     = word_of_int ((sint a + sint b) sdiv 2)"
proof -
  have two: "sint (2 :: c_long) = 2"
    by simp
  show ?thesis
    unfolding long_div_def long_sum_exact two by (rule short_of_long)
qed

lemma range_word:
  "(ucast ((scast (b :: c_int) :: c_long) - scast (word_of_int q :: c_short)) :: c_short)
     = word_of_int (sint b - q)"
proof -
  have 1: "(scast b :: c_long) = word_of_int (sint b)"
    by (rule scast_eq)
  have 2: "(scast (word_of_int q :: c_short) :: c_long) = word_of_int (signed_take_bit 15 q)"
    unfolding scast_eq sint_sbintrunc' by simp
  have "(ucast ((scast b :: c_long) - scast (word_of_int q :: c_short)) :: c_short)
      = word_of_int (sint b - signed_take_bit 15 q)"
    unfolding 1 2 by (simp only: wi_hom_sub short_of_long)
  also have "\<dots> = word_of_int (sint b - q)"
    by (simp add: word_of_int_eq_iff take_bit_diff [of 16 "sint b" "signed_take_bit 15 q", symmetric]
        take_bit_signed_take_bit)
  finally show ?thesis .
qed

lemma sint_short_of_int: "sint (word_of_int z :: c_short) = to_short z"
  by (simp add: sint_sbintrunc' to_short_def signed_take_bit_eq_take_bit_shift take_bit_eq_mod)

lemma to_short_id: "- 32768 \<le> z \<Longrightarrow> z \<le> 32767 \<Longrightarrow> to_short z = z"
  by (simp add: to_short_def)

lemma cal_offset_spec:
  assumes "length bs = 6" "k < 3"
  shows "cal_offset (map (\<lambda>b. scast (atoi b)) bs) k
    = word_of_int (spec_offset (map (\<lambda>b. sint (atoi b)) bs) k)"
  using assms by (simp add: cal_offset_def spec_offset_def offset_word)

lemma cal_range_spec:
  assumes "length bs = 6" "k < 3"
  shows "cal_range (map (\<lambda>b. scast (atoi b)) bs) k
    = word_of_int (spec_range (map (\<lambda>b. sint (atoi b)) bs) k)"
proof -
  have "cal_range (map (\<lambda>b. scast (atoi b)) bs) k =
      ucast ((scast (atoi (bs ! (2 * k + 1))) :: c_long)
        - scast (word_of_int (spec_offset (map (\<lambda>b. sint (atoi b)) bs) k) :: c_short))"
    using assms by (simp add: cal_range_def cal_offset_spec)
  also have "\<dots> = word_of_int (sint (atoi (bs ! (2 * k + 1)))
        - spec_offset (map (\<lambda>b. sint (atoi b)) bs) k)"
    by (rule range_word)
  finally show ?thesis
    using assms by (simp add: spec_range_def)
qed

lemma make_cal_spec:
  assumes "length (first_lines 6 f) = 6"
  shows "map sint (offset (make_cal (map (\<lambda>b. scast (atoi b)) (first_lines 6 f))))
      = map (\<lambda>k. to_short (spec_offset (cal_values f) k)) [0, 1, 2]"
    and "map sint (range_c (make_cal (map (\<lambda>b. scast (atoi b)) (first_lines 6 f))))
      = map (\<lambda>k. to_short (spec_range (cal_values f) k)) [0, 1, 2]"
  using assms
  by (simp_all add: make_cal_def cal_offset_spec cal_range_spec sint_short_of_int cal_values_def)

text \<open>
  C10. The values are parsed into \<^verbatim>\<open>long\<close> and the offsets and ranges are narrowed to
  \<^verbatim>\<open>short\<close> before the driver gets them: whenever six nonzero values are read, the
  load succeeds, whatever their size, and the entry given to the setter is the
  formula of section 3 reduced modulo \<open>2 ^ 16\<close> into the range of a \<^verbatim>\<open>short\<close>. A value
  outside that range is cut down without a diagnostic, not refused.
\<close>

theorem set_cal_entry_mod_2_16:
  assumes "fs (cal_path mag cal_file) = Some f"
    and "length (cal_values f) = 6"
    and "0 \<notin> set (cal_values f)"
  shows "\<exists>cal. set_cal fs mag cal_file = (0, [driver_setter mag cal])
    \<and> map sint (offset cal) = map (\<lambda>k. to_short (spec_offset (cal_values f) k)) [0, 1, 2]
    \<and> map sint (range_c cal) = map (\<lambda>k. to_short (spec_range (cal_values f) k)) [0, 1, 2]"
proof -
  from assms(2) have len: "length (first_lines 6 f) = 6"
    by simp
  from assms(3) have nz: "\<forall>b \<in> set (first_lines 6 f). atoi b \<noteq> 0"
    by (simp add: zero_in_cal_values)
  show ?thesis
    using set_cal_loaded [of fs mag cal_file f, OF assms(1) len nz] make_cal_spec [OF len] by blast
qed

theorem set_cal_entry_mod_2_16_witness:
  "one_file ''./magcal.txt'' big_file (cal_path 1 None) = Some big_file
   \<and> cal_values big_file = [40000, 40000, - 70000, - 10, 1, 1]
   \<and> (\<exists>cal. set_cal (one_file ''./magcal.txt'' big_file) 1 None = (0, [driver_setter 1 cal])
        \<and> map sint (offset cal) = [- 25536, 30531, 1]
        \<and> map sint (range_c cal) = [0, - 30541, 0])"
proof -
  have h1: "one_file ''./magcal.txt'' big_file (cal_path 1 None) = Some big_file"
    by (simp add: one_file_def cal_path_def)
  have v: "cal_values big_file = [40000, 40000, - 70000, - 10, 1, 1]"
    by code_simp
  have h2: "length (cal_values big_file) = 6" and h3: "0 \<notin> set (cal_values big_file)"
    unfolding v by simp_all
  have "map (\<lambda>k. to_short (spec_offset (cal_values big_file) k)) [0, 1, 2] = [- 25536, 30531, 1]"
    and "map (\<lambda>k. to_short (spec_range (cal_values big_file) k)) [0, 1, 2] = [0, - 30541, 0]"
    unfolding v by (simp_all add: to_short_def spec_offset_def spec_range_def signed_divide_int_def)
  with set_cal_entry_mod_2_16 [of "one_file ''./magcal.txt'' big_file" 1 None big_file, OF h1 h2 h3] h1 v
  show ?thesis
    by simp
qed

text \<open>
  C1, as amended. Whenever six nonzero values are read and the offsets and ranges
  of section 3 fit a \<^verbatim>\<open>short\<close>, the entry given to the setter has exactly
  \<open>offset_i = (val_{2i} + val_{2i+1}) / 2\<close> and \<open>range_i = val_{2i+1} - offset_i\<close>;
  the lines 100, 300, -50, 50, 10, 20 give the offsets 200, 0, 15 and the ranges
  100, 50, 5.
\<close>

theorem set_cal_entry_exact_within_short:
  assumes "fs (cal_path mag cal_file) = Some f"
    and "length (cal_values f) = 6"
    and "0 \<notin> set (cal_values f)"
    and "\<forall>k<3. fits_short (spec_offset (cal_values f) k) \<and> fits_short (spec_range (cal_values f) k)"
  shows "\<exists>cal. set_cal fs mag cal_file = (0, [driver_setter mag cal])
    \<and> map sint (offset cal) = map (spec_offset (cal_values f)) [0, 1, 2]
    \<and> map sint (range_c cal) = map (spec_range (cal_values f)) [0, 1, 2]"
proof -
  from assms(2) have len: "length (first_lines 6 f) = 6"
    by simp
  from assms(3) have nz: "\<forall>b \<in> set (first_lines 6 f). atoi b \<noteq> 0"
    by (simp add: zero_in_cal_values)
  have id: "to_short (spec_offset (cal_values f) k) = spec_offset (cal_values f) k"
    "to_short (spec_range (cal_values f) k) = spec_range (cal_values f) k" if "k < 3" for k
    using assms(4) that by (simp_all add: fits_short_def to_short_id)
  then have o: "map (\<lambda>k. to_short (spec_offset (cal_values f) k)) [0, 1, 2]
      = map (spec_offset (cal_values f)) [0, 1, 2]"
    and r: "map (\<lambda>k. to_short (spec_range (cal_values f) k)) [0, 1, 2]
      = map (spec_range (cal_values f)) [0, 1, 2]"
    by simp_all
  show ?thesis
    using set_cal_loaded [of fs mag cal_file f, OF assms(1) len nz] make_cal_spec [OF len]
    unfolding o r by blast
qed

theorem set_cal_entry_exact_within_short_witness:
  "one_file ''./accelcal.txt'' spec_file (cal_path 0 None) = Some spec_file
   \<and> cal_values spec_file = [100, 300, - 50, 50, 10, 20]
   \<and> (\<exists>cal. set_cal (one_file ''./accelcal.txt'' spec_file) 0 None = (0, [driver_setter 0 cal])
        \<and> map sint (offset cal) = [200, 0, 15]
        \<and> map sint (range_c cal) = [100, 50, 5])
   \<and> set_cal (one_file ''./accelcal.txt'' spec_file) 0 None
       = (0, [Mpu9150_set_accel_cal \<lparr>offset = [200, 0, 15], range_c = [100, 50, 5]\<rparr>])"
proof -
  have h1: "one_file ''./accelcal.txt'' spec_file (cal_path 0 None) = Some spec_file"
    by (simp add: one_file_def cal_path_def)
  have v: "cal_values spec_file = [100, 300, - 50, 50, 10, 20]"
    by code_simp
  have h2: "length (cal_values spec_file) = 6" and h3: "0 \<notin> set (cal_values spec_file)"
    unfolding v by simp_all
  have o: "map (spec_offset (cal_values spec_file)) [0, 1, 2] = [200, 0, 15]"
    and r: "map (spec_range (cal_values spec_file)) [0, 1, 2] = [100, 50, 5]"
    unfolding v by (simp_all add: spec_offset_def spec_range_def signed_divide_int_def)
  have h4: "\<forall>k<3. fits_short (spec_offset (cal_values spec_file) k)
      \<and> fits_short (spec_range (cal_values spec_file) k)"
    unfolding v
    by (simp add: less_Suc_eq numeral_3_eq_3 fits_short_def spec_offset_def spec_range_def
        signed_divide_int_def)
  have e: "set_cal (one_file ''./accelcal.txt'' spec_file) 0 None
       = (0, [Mpu9150_set_accel_cal \<lparr>offset = [200, 0, 15], range_c = [100, 50, 5]\<rparr>])"
    by code_simp
  from set_cal_entry_exact_within_short
    [of "one_file ''./accelcal.txt'' spec_file" 0 None spec_file, OF h1 h2 h3 h4]
  have "\<exists>cal. set_cal (one_file ''./accelcal.txt'' spec_file) 0 None = (0, [driver_setter 0 cal])
        \<and> map sint (offset cal) = [200, 0, 15]
        \<and> map sint (range_c cal) = [100, 50, 5]"
    unfolding o r .
  with h1 v e show ?thesis
    by blast
qed

text \<open>
  C1 as stated fails without the bound: the lines 40000, 40000, 1, 1, 1, 1 load,
  the formula gives the first offset 40000, and the driver is handed -25536.
\<close>

theorem set_cal_entry_not_exact:
  "cal_values wide_file = [40000, 40000, 1, 1, 1, 1]
   \<and> set_cal (one_file ''./accelcal.txt'' wide_file) 0 None
       = (0, [Mpu9150_set_accel_cal \<lparr>offset = [- 25536, 1, 1], range_c = [0, 0, 0]\<rparr>])
   \<and> map sint [- 25536, 1, 1 :: c_short] = [- 25536, 1, 1]
   \<and> map (spec_offset [40000, 40000, 1, 1, 1, 1]) [0, 1, 2] = [40000, 1, 1]"
proof -
  have "cal_values wide_file = [40000, 40000, 1, 1, 1, 1]"
    by code_simp
  moreover have "set_cal (one_file ''./accelcal.txt'' wide_file) 0 None
       = (0, [Mpu9150_set_accel_cal \<lparr>offset = [- 25536, 1, 1], range_c = [0, 0, 0]\<rparr>])"
    by code_simp
  moreover have "map sint [- 25536, 1, 1 :: c_short] = [- 25536, 1, 1]"
    by simp
  moreover have "map (spec_offset [40000, 40000, 1, 1, 1, 1]) [0, 1, 2] = [40000, 1, 1]"
    by (simp add: spec_offset_def signed_divide_int_def)
  ultimately show ?thesis
    by blast
qed

section \<open>The loops in closed form\<close>

lemma read_loop_body_trace:
  "trace (read_loop_body e d w) = trace w @ console_turn e d (reads w)"
  "reads (read_loop_body e d w) = Suc (reads w)"
  by (simp_all add: read_loop_body_def mpu9150_read_def call_def console_turn_def)

lemma node_loop_body_trace:
  "trace (node_loop_body e c w) = trace w @ node_turn e c (reads w)"
  "reads (node_loop_body e c w) = Suc (reads w)"
  by (simp_all add: node_loop_body_def mpu9150_read_def call_def calls_def node_turn_def)

lemma read_loop_while_shape:
  assumes "read_loop_while e d w = Some w'"
  shows "\<exists>n. trace w' = trace w @ concat (map (console_turn e d) [reads w..<reads w + n])
    \<and> reads w' = reads w + n \<and> done_flag e w' \<noteq> 0"
proof (induction rule: read_loop_while.raw_induct [OF _ assms])
  case (1 loop e d w w')
  show ?case
  proof (cases "done_flag e w \<noteq> 0")
    case True
    with 1(2) have "w' = w" by simp
    with True show ?thesis by (intro exI [of _ 0]) simp
  next
    case False
    with 1(2) have "loop e d (read_loop_body e d w) = Some w'" by simp
    from 1(1) [OF this] obtain n where
      n: "trace w' = trace (read_loop_body e d w)
            @ concat (map (console_turn e d) [reads (read_loop_body e d w)..<reads (read_loop_body e d w) + n])"
        "reads w' = reads (read_loop_body e d w) + n" "done_flag e w' \<noteq> 0"
      by blast
    have "[reads w..<reads w + Suc n] = reads w # [Suc (reads w)..<Suc (reads w) + n]"
      by (simp add: upt_rec)
    with n show ?thesis
      by (intro exI [of _ "Suc n"]) (simp add: read_loop_body_trace)
  qed
qed

lemma node_loop_shape:
  assumes "node_loop e c w = Some w'"
  shows "\<exists>n. trace w' = trace w @ concat (map (\<lambda>j. node_turn e (c + j) (reads w + j)) [0..<n])
    \<and> reads w' = reads w + n \<and> \<not> ros_ok e (c + n) \<and> (\<forall>j<n. ros_ok e (c + j))"
proof (induction rule: node_loop.raw_induct [OF _ assms])
  case (1 loop e c w w')
  show ?case
  proof (cases "ros_ok e c")
    case False
    with 1(2) have "w' = w" by simp
    with False show ?thesis by (intro exI [of _ 0]) simp
  next
    case True
    with 1(2) have "loop e (Suc c) (node_loop_body e c w) = Some w'" by simp
    from 1(1) [OF this] obtain n where
      n: "trace w' = trace (node_loop_body e c w)
            @ concat (map (\<lambda>j. node_turn e (Suc c + j) (reads (node_loop_body e c w) + j)) [0..<n])"
        "reads w' = reads (node_loop_body e c w) + n" "\<not> ros_ok e (Suc c + n)"
        "\<forall>j<n. ros_ok e (Suc c + j)"
      by blast
    have "map (\<lambda>j. node_turn e (c + j) (reads w + j)) [0..<Suc n]
        = node_turn e c (reads w) # map (\<lambda>j. node_turn e (Suc c + j) (Suc (reads w) + j)) [0..<n]"
      by (simp add: upt_rec [of 0] map_Suc_upt [symmetric] del: upt_Suc)
    moreover have "\<forall>j<Suc n. ros_ok e (c + j)"
      using True n(4) by (auto simp: less_Suc_eq_0_disj)
    ultimately show ?thesis
      using n by (intro exI [of _ "Suc n"]) (simp add: node_loop_body_trace del: upt_Suc)
  qed
qed

lemma read_loop_shape:
  assumes "rate \<noteq> 0" "read_loop e rate w = Some w'"
  shows "\<exists>n. trace w' = trace w
      @ [Printf ''\<newline>Entering read loop (ctrl-c to exit)\<newline>\<newline>'', Linux_delay_ms (loop_delay_of rate)]
      @ concat (map (console_turn e (loop_delay_of rate)) [reads w..<reads w + n])
      @ [Printf ''\<newline>\<newline>'']"
proof -
  let ?w0 = "call (Linux_delay_ms (loop_delay_of rate))
               (call (Printf ''\<newline>Entering read loop (ctrl-c to exit)\<newline>\<newline>'') w)"
  from assms obtain w1 where w1: "read_loop_while e (loop_delay_of rate) ?w0 = Some w1"
    and w': "w' = call (Printf ''\<newline>\<newline>'') w1"
    by (auto simp: read_loop_def split: option.splits)
  from read_loop_while_shape [OF w1] obtain n where
    "trace w1 = trace ?w0 @ concat (map (console_turn e (loop_delay_of rate)) [reads ?w0..<reads ?w0 + n])"
    by blast
  then show ?thesis
    unfolding w' by (intro exI [of _ n]) (simp add: call_def)
qed

lemma read_loop_extends:
  assumes "read_loop e rate w = Some w'"
  shows "\<exists>evs. trace w' = trace w @ evs"
proof (cases "rate = 0")
  case True
  with assms show ?thesis by (simp add: read_loop_def)
next
  case False
  from read_loop_shape [OF False assms] show ?thesis by blast
qed

lemma node_main_run:
  assumes "\<not> sigaction_rc e <s 0" "init_rc e = 0" "sample_rate cfg \<noteq> 0"
    "node_main e fs cfg = Some (st, w')"
  shows "st = 0 \<and> (\<exists>n. trace w' =
      [Mpu9150_set_debug (verbose cfg),
       Mpu9150_init (i2c_bus cfg) (sample_rate cfg) (yaw_mix_factor cfg)]
      @ snd (node_set_cal fs 0 (accel_cal_file cfg)) @ snd (node_set_cal fs 1 (mag_cal_file cfg))
      @ [Printf ''\<newline>Entering MPU read loop (ctrl-c to exit)\<newline>\<newline>'',
         Linux_delay_ms (node_loop_delay_of (sample_rate cfg))]
      @ concat (map (\<lambda>j. node_turn e j j) [0..<n]))"
proof -
  let ?w5 = "calls [Printf ''\<newline>Entering MPU read loop (ctrl-c to exit)\<newline>\<newline>'',
                    Linux_delay_ms (node_loop_delay_of (sample_rate cfg))]
    (calls (snd (node_set_cal fs 1 (mag_cal_file cfg)))
     (calls (snd (node_set_cal fs 0 (accel_cal_file cfg)))
       (calls [Mpu9150_set_debug (verbose cfg),
               Mpu9150_init (i2c_bus cfg) (sample_rate cfg) (yaw_mix_factor cfg)]
          \<lparr>trace = [], reads = 0\<rparr>)))"
  from assms have l: "node_loop e 0 ?w5 = Some w'" and r: "st = 0"
    by (auto simp: node_main_def Let_def split: option.splits)
  have "reads ?w5 = 0"
    by (simp add: calls_def)
  with node_loop_shape [OF l] obtain n where
    "trace w' = trace ?w5 @ concat (map (\<lambda>j. node_turn e j j) [0..<n])"
    by auto
  with r show ?thesis
    by (intro conjI exI [of _ n]) (simp_all add: calls_def)
qed

section \<open>Cancellation\<close>

text \<open>
  In the console program SIGINT ends the loop: once the flag is set the loop makes
  no further turn, and a turn during which it is set is the last. The node's loop does
  not read the flag: while \<^verbatim>\<open>ros::ok\<close> holds it goes on.
\<close>

lemma read_loop_while_terminates:
  assumes "sigint_at e = Some k"
  shows "\<exists>w'. read_loop_while e d w = Some w'"
proof (induction "k - length (trace w)" arbitrary: w rule: less_induct)
  case less
  show ?case
  proof (cases "done_flag e w \<noteq> 0")
    case True
    then show ?thesis by (subst read_loop_while.simps) simp
  next
    case False
    with assms have "length (trace w) < k"
      by (simp add: done_flag_def split: if_splits)
    then have "k - length (trace (read_loop_body e d w)) < k - length (trace w)"
      by (simp add: read_loop_body_trace console_turn_def)
    from less [OF this] False show ?thesis
      by (subst read_loop_while.simps) simp
  qed
qed

lemma read_loop_while_one_more_turn:
  assumes "done_flag e w = 0" "done_flag e (read_loop_body e d w) \<noteq> 0"
  shows "read_loop_while e d w = Some (read_loop_body e d w)"
  using assms by (subst read_loop_while.simps, subst read_loop_while.simps) simp

lemma node_loop_ignores_sigint:
  assumes "\<forall>k. ros_ok e k"
  shows "node_loop e c w = None"
proof (cases "node_loop e c w")
  case (Some w')
  from node_loop_shape [OF this] assms show ?thesis by blast
qed simp

lemma read_loop_terminates:
  assumes "sigint_at e = Some k"
  shows "\<exists>w'. read_loop e rate w = Some w'"
proof (cases "rate = 0")
  case True
  then show ?thesis by (simp add: read_loop_def)
next
  case False
  obtain w1 where "read_loop_while e (loop_delay_of rate)
      (call (Linux_delay_ms (loop_delay_of rate))
        (call (Printf ''\<newline>Entering read loop (ctrl-c to exit)\<newline>\<newline>'') w)) = Some w1"
    using read_loop_while_terminates [OF assms] by blast
  with False show ?thesis by (simp add: read_loop_def)
qed

lemma main_run:
  assumes "\<not> sigaction_rc e <s 0" "init_rc e = 0" "main e fs cfg = Some (st, w')"
  shows "st = 0 \<and> (\<exists>w5 n.
      read_loop e (sample_rate cfg)
        \<lparr>trace = [Mpu9150_set_debug (verbose cfg),
                   Mpu9150_init (i2c_bus cfg) (sample_rate cfg) (yaw_mix_factor cfg)]
                  @ snd (set_cal fs 0 (accel_cal_file cfg))
                  @ snd (set_cal fs 1 (mag_cal_file cfg)),
         reads = 0\<rparr> = Some w5
      \<and> w' = call Mpu9150_exit w5
      \<and> trace w' =
          [Mpu9150_set_debug (verbose cfg),
           Mpu9150_init (i2c_bus cfg) (sample_rate cfg) (yaw_mix_factor cfg)]
          @ snd (set_cal fs 0 (accel_cal_file cfg)) @ snd (set_cal fs 1 (mag_cal_file cfg))
          @ read_loop_calls e (sample_rate cfg) n @ [Mpu9150_exit])"
proof -
  let ?pre = "[Mpu9150_set_debug (verbose cfg),
               Mpu9150_init (i2c_bus cfg) (sample_rate cfg) (yaw_mix_factor cfg)]
              @ snd (set_cal fs 0 (accel_cal_file cfg))
              @ snd (set_cal fs 1 (mag_cal_file cfg))"
  let ?w4 = "\<lparr>trace = ?pre, reads = 0\<rparr>"
  have w4: "calls (snd (set_cal fs 1 (mag_cal_file cfg)))
     (calls (snd (set_cal fs 0 (accel_cal_file cfg)))
       (calls [Mpu9150_set_debug (verbose cfg),
               Mpu9150_init (i2c_bus cfg) (sample_rate cfg) (yaw_mix_factor cfg)]
          \<lparr>trace = [], reads = 0\<rparr>)) = ?w4"
    by (simp add: calls_def)
  from assms obtain w5 where w5: "read_loop e (sample_rate cfg) ?w4 = Some w5"
    and r: "st = 0" "w' = call Mpu9150_exit w5"
    unfolding main_def Let_def w4 by (auto split: option.splits)
  have "\<exists>n. trace w5 = ?pre @ read_loop_calls e (sample_rate cfg) n"
  proof (cases "sample_rate cfg = 0")
    case True
    with w5 have "w5 = ?w4" by (simp add: read_loop_def)
    with True show ?thesis by (simp add: read_loop_calls_def)
  next
    case False
    from read_loop_shape [OF False w5] obtain n where
      "trace w5 = trace ?w4
        @ [Printf ''\<newline>Entering read loop (ctrl-c to exit)\<newline>\<newline>'',
           Linux_delay_ms (loop_delay_of (sample_rate cfg))]
        @ concat (map (console_turn e (loop_delay_of (sample_rate cfg))) [reads ?w4..<reads ?w4 + n])
        @ [Printf ''\<newline>\<newline>'']"
      by blast
    with False show ?thesis
      by (intro exI [of _ n]) (simp add: read_loop_calls_def)
  qed
  then obtain n where "trace w5 = ?pre @ read_loop_calls e (sample_rate cfg) n"
    by blast
  with w5 r show ?thesis
    by (intro conjI exI [of _ w5] exI [of _ n]) (simp_all add: call_def)
qed

lemma main_returns:
  assumes "\<not> sigaction_rc e <s 0" "init_rc e = 0" "sigint_at e = Some k"
  shows "\<exists>w'. main e fs cfg = Some (0, w')"
proof -
  let ?w4 = "calls (snd (set_cal fs 1 (mag_cal_file cfg)))
     (calls (snd (set_cal fs 0 (accel_cal_file cfg)))
       (calls [Mpu9150_set_debug (verbose cfg),
               Mpu9150_init (i2c_bus cfg) (sample_rate cfg) (yaw_mix_factor cfg)]
          \<lparr>trace = [], reads = 0\<rparr>))"
  obtain w5 where "read_loop e (sample_rate cfg) ?w4 = Some w5"
    using read_loop_terminates [OF assms(3)] by blast
  with assms(1,2) show ?thesis
    by (simp add: main_def Let_def)
qed

lemma read_loop_rate_0: "read_loop e 0 w = Some w"
  by (simp add: read_loop_def)

lemma main_rate_0:
  assumes "\<not> sigaction_rc e <s 0" "init_rc e = 0" "sample_rate cfg = 0"
  shows "main e fs cfg = Some (0,
      \<lparr>trace = [Mpu9150_set_debug (verbose cfg),
                 Mpu9150_init (i2c_bus cfg) (sample_rate cfg) (yaw_mix_factor cfg)]
                @ snd (set_cal fs 0 (accel_cal_file cfg))
                @ snd (set_cal fs 1 (mag_cal_file cfg)) @ [Mpu9150_exit],
       reads = 0\<rparr>)"
  using assms by (simp add: main_def Let_def read_loop_def call_def calls_def)

lemma node_main_rate_0:
  assumes "\<not> sigaction_rc e <s 0" "init_rc e = 0" "sample_rate cfg = 0"
  shows "node_main e fs cfg = Some (- 1,
      \<lparr>trace = [Mpu9150_set_debug (verbose cfg),
                 Mpu9150_init (i2c_bus cfg) (sample_rate cfg) (yaw_mix_factor cfg)]
                @ snd (node_set_cal fs 0 (accel_cal_file cfg))
                @ snd (node_set_cal fs 1 (mag_cal_file cfg)),
       reads = 0\<rparr>)"
  using assms by (simp add: node_main_def Let_def calls_def)

section \<open>The claims on the loops\<close>

text \<open>
  C2, which the node breaks. The claim: in every turn of the loop the sink is called
  exactly when the read returned a fresh sample, so five reads without a sample and
  one with give one dispatch. The console program does so (one
  \<open>print_fused_euler_angles\<close>). The node publishes in every turn, an empty message
  when the read gave nothing: six publications.
\<close>

theorem publish_in_every_turn:
  "run_status (node_main not_ready_5_then_fresh Map.empty default_config) = Some 0
   \<and> filter is_publish (run_trace (node_main not_ready_5_then_fresh Map.empty default_config))
       = [Publish None, Publish None, Publish None, Publish None, Publish None,
          Publish (Some (5, 5))]
   \<and> run_status (main not_ready_5_then_fresh Map.empty default_config) = Some 0
   \<and> filter is_print (run_trace (main not_ready_5_then_fresh Map.empty default_config))
       = [Print_fused_euler_angles 5]"
  by code_simp

text \<open>
  C3, which the node breaks. The claim: once the flag is set the loop makes at most
  one more turn and ends, and the driver is shut down exactly once on every way out.
  With SIGINT delivered before the loop, the console program makes no read and ends
  with \<^verbatim>\<open>mpu9150_exit\<close>. The node makes three more reads, as long as \<^verbatim>\<open>ros::ok\<close>
  holds, and returns without ever calling \<^verbatim>\<open>mpu9150_exit\<close>.
\<close>

theorem node_ignores_sigint_and_never_shuts_down:
  "done_flag sigint_at_start \<lparr>trace = [], reads = 0\<rparr> = 1
   \<and> node_main sigint_at_start Map.empty default_config
       = Some (0, \<lparr>trace =
           [Mpu9150_set_debug 0, Mpu9150_init 1 10 4,
            Printf ''Default accelcal.txt not found\<newline>'',
            Printf ''Default magcal.txt not found\<newline>'',
            Printf ''\<newline>Entering MPU read loop (ctrl-c to exit)\<newline>\<newline>'',
            Linux_delay_ms 98,
            Mpu9150_read, Ros_info 0 0, Publish (Some (0, 0)), SpinOnce, Rate_sleep,
            Mpu9150_read, Ros_info 1 1, Publish (Some (1, 1)), SpinOnce, Rate_sleep,
            Mpu9150_read, Ros_info 2 2, Publish (Some (2, 2)), SpinOnce, Rate_sleep],
           reads = 3\<rparr>)
   \<and> main sigint_at_start Map.empty default_config
       = Some (0, \<lparr>trace =
           [Mpu9150_set_debug 0, Mpu9150_init 1 10 4,
            Printf ''Default accelcal.txt not found\<newline>'',
            Printf ''Default magcal.txt not found\<newline>'',
            Printf ''\<newline>Entering read loop (ctrl-c to exit)\<newline>\<newline>'',
            Linux_delay_ms 98, Printf ''\<newline>\<newline>'', Mpu9150_exit],
           reads = 0\<rparr>)"
  by code_simp

text \<open>
  C7 as stated fails in the node. The claim: with sample rate 0 there is no read and
  no dispatch, and the program returns right after the shutdown of the driver. At
  rate 0 both programs make no read and no dispatch; the console program ends with
  \<^verbatim>\<open>mpu9150_exit\<close> and returns 0, the node leaves by its guard
  \<^verbatim>\<open>if (sample_rate == 0) return -1;\<close> and \<^verbatim>\<open>mpu9150_exit\<close> is not among its calls.
\<close>

theorem node_rate_0_no_shutdown:
  "node_main two_turns Map.empty (default_config\<lparr>sample_rate := 0\<rparr>)
     = Some (- 1, \<lparr>trace =
         [Mpu9150_set_debug 0, Mpu9150_init 1 0 4,
          Printf ''Default accelcal.txt not found\<newline>'',
          Printf ''Default magcal.txt not found\<newline>''],
         reads = 0\<rparr>)
   \<and> main two_turns Map.empty (default_config\<lparr>sample_rate := 0\<rparr>)
     = Some (0, \<lparr>trace =
         [Mpu9150_set_debug 0, Mpu9150_init 1 0 4,
          Printf ''Default accelcal.txt not found\<newline>'',
          Printf ''Default magcal.txt not found\<newline>'', Mpu9150_exit],
         reads = 0\<rparr>)"
  by code_simp

text \<open>
  C7, as amended. \<open>read_loop\<close> called with rate 0 returns at once and leaves the
  world as it was. With the handler installed, the driver initialised and sample
  rate 0, the console program makes the calls of the set-up and of the two
  calibration slots, then \<^verbatim>\<open>mpu9150_exit\<close>, and returns 0; the node makes the calls of
  the set-up and of the two calibration slots and returns -1. Neither run holds a
  read of the driver or a dispatch to the sink.
\<close>

theorem rate_0_makes_no_turn:
  "read_loop e 0 w = Some w
   \<and> (\<not> sigaction_rc e <s 0 \<and> init_rc e = 0 \<and> sample_rate cfg = 0 \<longrightarrow>
        main e fs cfg = Some (0,
          \<lparr>trace = [Mpu9150_set_debug (verbose cfg),
                     Mpu9150_init (i2c_bus cfg) (sample_rate cfg) (yaw_mix_factor cfg)]
                    @ snd (set_cal fs 0 (accel_cal_file cfg))
                    @ snd (set_cal fs 1 (mag_cal_file cfg)) @ [Mpu9150_exit],
           reads = 0\<rparr>)
        \<and> filter samples
            ([Mpu9150_set_debug (verbose cfg),
              Mpu9150_init (i2c_bus cfg) (sample_rate cfg) (yaw_mix_factor cfg)]
             @ snd (set_cal fs 0 (accel_cal_file cfg))
             @ snd (set_cal fs 1 (mag_cal_file cfg)) @ [Mpu9150_exit]) = []
        \<and> node_main e fs cfg = Some (- 1,
          \<lparr>trace = [Mpu9150_set_debug (verbose cfg),
                     Mpu9150_init (i2c_bus cfg) (sample_rate cfg) (yaw_mix_factor cfg)]
                    @ snd (node_set_cal fs 0 (accel_cal_file cfg))
                    @ snd (node_set_cal fs 1 (mag_cal_file cfg)),
           reads = 0\<rparr>)
        \<and> filter samples
            ([Mpu9150_set_debug (verbose cfg),
              Mpu9150_init (i2c_bus cfg) (sample_rate cfg) (yaw_mix_factor cfg)]
             @ snd (node_set_cal fs 0 (accel_cal_file cfg))
             @ snd (node_set_cal fs 1 (mag_cal_file cfg))) = [])"
proof -
  have n: "node_set_cal fs mag cal_file = set_cal fs mag cal_file" for mag cal_file
    by (simp add: node_set_cal_def set_cal_def open_cal_def node_read_vals_eq node_make_cal_eq
        cong: option.case_cong sum.case_cong prod.case_cong if_cong)
  show ?thesis
    using read_loop_rate_0 [of e w] main_rate_0 [of e cfg fs] node_main_rate_0 [of e cfg fs]
    by (simp add: set_cal_no_sample n)
qed

theorem rate_0_makes_no_turn_witness:
  "read_loop two_turns 0 \<lparr>trace = [Mpu9150_set_debug 0], reads = 0\<rparr>
     = Some \<lparr>trace = [Mpu9150_set_debug 0], reads = 0\<rparr>
   \<and> sample_rate (default_config\<lparr>sample_rate := 0\<rparr>) = 0
   \<and> main two_turns (one_file ''./accelcal.txt'' spec_file) (default_config\<lparr>sample_rate := 0\<rparr>)
       = Some (0, \<lparr>trace =
           [Mpu9150_set_debug 0, Mpu9150_init 1 0 4,
            Mpu9150_set_accel_cal \<lparr>offset = [200, 0, 15], range_c = [100, 50, 5]\<rparr>,
            Printf ''Default magcal.txt not found\<newline>'', Mpu9150_exit],
           reads = 0\<rparr>)
   \<and> filter samples
         [Mpu9150_set_debug 0, Mpu9150_init 1 0 4,
          Mpu9150_set_accel_cal \<lparr>offset = [200, 0, 15], range_c = [100, 50, 5]\<rparr>,
          Printf ''Default magcal.txt not found\<newline>'', Mpu9150_exit] = []
   \<and> node_main two_turns (one_file ''./accelcal.txt'' spec_file)
         (default_config\<lparr>sample_rate := 0\<rparr>)
       = Some (- 1, \<lparr>trace =
           [Mpu9150_set_debug 0, Mpu9150_init 1 0 4,
            Mpu9150_set_accel_cal \<lparr>offset = [200, 0, 15], range_c = [100, 50, 5]\<rparr>,
            Printf ''Default magcal.txt not found\<newline>''],
           reads = 0\<rparr>)
   \<and> filter samples
         [Mpu9150_set_debug 0, Mpu9150_init 1 0 4,
          Mpu9150_set_accel_cal \<lparr>offset = [200, 0, 15], range_c = [100, 50, 5]\<rparr>,
          Printf ''Default magcal.txt not found\<newline>''] = []"
proof -
  let ?fs = "one_file ''./accelcal.txt'' spec_file"
  let ?cfg = "default_config\<lparr>sample_rate := 0\<rparr>"
  note t = rate_0_makes_no_turn
    [where e = two_turns and w = "\<lparr>trace = [Mpu9150_set_debug 0], reads = 0\<rparr>"
       and cfg = "?cfg" and fs = "?fs"]
  have c: "\<not> sigaction_rc two_turns <s 0" "init_rc two_turns = 0" "sample_rate ?cfg = 0"
    by (simp_all add: two_turns_def)
  have k: "set_cal ?fs 0 (accel_cal_file ?cfg)
      = (0, [Mpu9150_set_accel_cal \<lparr>offset = [200, 0, 15], range_c = [100, 50, 5]\<rparr>])"
    "set_cal ?fs 1 (mag_cal_file ?cfg) = (0, [Printf ''Default magcal.txt not found\<newline>''])"
    "node_set_cal ?fs 0 (accel_cal_file ?cfg)
      = (0, [Mpu9150_set_accel_cal \<lparr>offset = [200, 0, 15], range_c = [100, 50, 5]\<rparr>])"
    "node_set_cal ?fs 1 (mag_cal_file ?cfg) = (0, [Printf ''Default magcal.txt not found\<newline>''])"
    by code_simp+
  have v: "verbose ?cfg = 0" "i2c_bus ?cfg = 1" "yaw_mix_factor ?cfg = 4"
    by (simp_all add: default_config_def)
  from t have r: "read_loop two_turns 0 \<lparr>trace = [Mpu9150_set_debug 0], reads = 0\<rparr>
     = Some \<lparr>trace = [Mpu9150_set_debug 0], reads = 0\<rparr>"
    by blast
  from t c have
    "main two_turns ?fs ?cfg = Some (0,
          \<lparr>trace = [Mpu9150_set_debug (verbose ?cfg),
                     Mpu9150_init (i2c_bus ?cfg) (sample_rate ?cfg) (yaw_mix_factor ?cfg)]
                    @ snd (set_cal ?fs 0 (accel_cal_file ?cfg))
                    @ snd (set_cal ?fs 1 (mag_cal_file ?cfg)) @ [Mpu9150_exit],
           reads = 0\<rparr>)"
    "filter samples
            ([Mpu9150_set_debug (verbose ?cfg),
              Mpu9150_init (i2c_bus ?cfg) (sample_rate ?cfg) (yaw_mix_factor ?cfg)]
             @ snd (set_cal ?fs 0 (accel_cal_file ?cfg))
             @ snd (set_cal ?fs 1 (mag_cal_file ?cfg)) @ [Mpu9150_exit]) = []"
    "node_main two_turns ?fs ?cfg = Some (- 1,
          \<lparr>trace = [Mpu9150_set_debug (verbose ?cfg),
                     Mpu9150_init (i2c_bus ?cfg) (sample_rate ?cfg) (yaw_mix_factor ?cfg)]
                    @ snd (node_set_cal ?fs 0 (accel_cal_file ?cfg))
                    @ snd (node_set_cal ?fs 1 (mag_cal_file ?cfg)),
           reads = 0\<rparr>)"
    "filter samples
            ([Mpu9150_set_debug (verbose ?cfg),
              Mpu9150_init (i2c_bus ?cfg) (sample_rate ?cfg) (yaw_mix_factor ?cfg)]
             @ snd (node_set_cal ?fs 0 (accel_cal_file ?cfg))
             @ snd (node_set_cal ?fs 1 (mag_cal_file ?cfg))) = []"
    by blast+
  then have m:
    "main two_turns ?fs ?cfg = Some (0, \<lparr>trace =
           [Mpu9150_set_debug 0, Mpu9150_init 1 0 4,
            Mpu9150_set_accel_cal \<lparr>offset = [200, 0, 15], range_c = [100, 50, 5]\<rparr>,
            Printf ''Default magcal.txt not found\<newline>'', Mpu9150_exit],
           reads = 0\<rparr>)"
    "filter samples
         [Mpu9150_set_debug 0, Mpu9150_init 1 0 4,
          Mpu9150_set_accel_cal \<lparr>offset = [200, 0, 15], range_c = [100, 50, 5]\<rparr>,
          Printf ''Default magcal.txt not found\<newline>'', Mpu9150_exit] = []"
    "node_main two_turns ?fs ?cfg = Some (- 1, \<lparr>trace =
           [Mpu9150_set_debug 0, Mpu9150_init 1 0 4,
            Mpu9150_set_accel_cal \<lparr>offset = [200, 0, 15], range_c = [100, 50, 5]\<rparr>,
            Printf ''Default magcal.txt not found\<newline>''],
           reads = 0\<rparr>)"
    "filter samples
         [Mpu9150_set_debug 0, Mpu9150_init 1 0 4,
          Mpu9150_set_accel_cal \<lparr>offset = [200, 0, 15], range_c = [100, 50, 5]\<rparr>,
          Printf ''Default magcal.txt not found\<newline>''] = []"
    unfolding k v c(3) by simp_all
  from r c(3) m show ?thesis
    by blast
qed

text \<open>
  C8 as stated fails in the node: at 20 Hz the delay of 48 ms computed from the rate
  is applied once, before the loop; the second read follows \<^verbatim>\<open>loop_rate.sleep()\<close>,
  not that delay.
\<close>

theorem node_delay_applied_once:
  "node_loop_delay_of 20 = 48
   \<and> node_main two_turns Map.empty (default_config\<lparr>sample_rate := 20\<rparr>)
     = Some (0, \<lparr>trace =
         [Mpu9150_set_debug 0, Mpu9150_init 1 20 4,
          Printf ''Default accelcal.txt not found\<newline>'',
          Printf ''Default magcal.txt not found\<newline>'',
          Printf ''\<newline>Entering MPU read loop (ctrl-c to exit)\<newline>\<newline>'',
          Linux_delay_ms 48,
          Mpu9150_read, Ros_info 0 0, Publish (Some (0, 0)), SpinOnce, Rate_sleep,
          Mpu9150_read, Publish None, SpinOnce, Rate_sleep],
         reads = 2\<rparr>)
   \<and> filter is_delay
        (run_trace (node_main two_turns Map.empty (default_config\<lparr>sample_rate := 20\<rparr>)))
       = [Linux_delay_ms 48]"
  by code_simp

text \<open>
  C8, as amended. In the console program the delay is computed once from the sample
  rate, applied before the loop and again at the end of every turn, so every read
  comes right after a delay of that same value. In the node the delay computed from
  the sample rate is applied once, before the loop; its turns hold no such delay and
  end with the fixed-rate sleep of the transport.
\<close>

theorem delay_fixed_in_console_loop_only:
  "(rate \<noteq> 0 \<and> read_loop e rate w = Some w' \<longrightarrow>
      (\<exists>n. trace w' = trace w
         @ [Printf ''\<newline>Entering read loop (ctrl-c to exit)\<newline>\<newline>'',
            Linux_delay_ms (loop_delay_of rate)]
         @ concat (map (console_turn e (loop_delay_of rate)) [reads w..<reads w + n])
         @ [Printf ''\<newline>\<newline>'']))
   \<and> (\<not> sigaction_rc e <s 0 \<and> init_rc e = 0 \<and> sample_rate cfg \<noteq> 0
        \<and> node_main e fs cfg = Some (st, v) \<longrightarrow>
      (\<exists>n. trace v =
         [Mpu9150_set_debug (verbose cfg),
          Mpu9150_init (i2c_bus cfg) (sample_rate cfg) (yaw_mix_factor cfg)]
         @ snd (node_set_cal fs 0 (accel_cal_file cfg))
         @ snd (node_set_cal fs 1 (mag_cal_file cfg))
         @ [Printf ''\<newline>Entering MPU read loop (ctrl-c to exit)\<newline>\<newline>'',
            Linux_delay_ms (node_loop_delay_of (sample_rate cfg))]
         @ concat (map (\<lambda>j. node_turn e j j) [0..<n])))"
  using read_loop_shape [of rate e w w'] node_main_run [of e cfg fs st v] by blast

theorem delay_fixed_in_console_loop_only_witness:
  "loop_delay_of 20 = 48
   \<and> read_loop two_turns 20 \<lparr>trace = [], reads = 0\<rparr>
       = Some \<lparr>trace =
           [Printf ''\<newline>Entering read loop (ctrl-c to exit)\<newline>\<newline>'', Linux_delay_ms 48,
            Mpu9150_read, Print_fused_euler_angles 0, Linux_delay_ms 48,
            Mpu9150_read, Linux_delay_ms 48,
            Mpu9150_read, Print_fused_euler_angles 2, Linux_delay_ms 48,
            Mpu9150_read, Print_fused_euler_angles 3, Linux_delay_ms 48,
            Printf ''\<newline>\<newline>''],
           reads = 4\<rparr>
   \<and> (\<exists>n. [Printf ''\<newline>Entering read loop (ctrl-c to exit)\<newline>\<newline>'', Linux_delay_ms 48,
            Mpu9150_read, Print_fused_euler_angles 0, Linux_delay_ms 48,
            Mpu9150_read, Linux_delay_ms 48,
            Mpu9150_read, Print_fused_euler_angles 2, Linux_delay_ms 48,
            Mpu9150_read, Print_fused_euler_angles 3, Linux_delay_ms 48,
            Printf ''\<newline>\<newline>'']
          = [Printf ''\<newline>Entering read loop (ctrl-c to exit)\<newline>\<newline>'', Linux_delay_ms 48]
            @ concat (map (console_turn two_turns 48) [0..<n]) @ [Printf ''\<newline>\<newline>''])
   \<and> (\<exists>n. run_trace (node_main two_turns Map.empty (default_config\<lparr>sample_rate := 20\<rparr>))
          = [Mpu9150_set_debug 0, Mpu9150_init 1 20 4,
             Printf ''Default accelcal.txt not found\<newline>'',
             Printf ''Default magcal.txt not found\<newline>'',
             Printf ''\<newline>Entering MPU read loop (ctrl-c to exit)\<newline>\<newline>'',
             Linux_delay_ms 48]
            @ concat (map (\<lambda>j. node_turn two_turns j j) [0..<n]))"
proof -
  let ?w1 = "\<lparr>trace =
           [Printf ''\<newline>Entering read loop (ctrl-c to exit)\<newline>\<newline>'', Linux_delay_ms 48,
            Mpu9150_read, Print_fused_euler_angles 0, Linux_delay_ms 48,
            Mpu9150_read, Linux_delay_ms 48,
            Mpu9150_read, Print_fused_euler_angles 2, Linux_delay_ms 48,
            Mpu9150_read, Print_fused_euler_angles 3, Linux_delay_ms 48,
            Printf ''\<newline>\<newline>''],
           reads = 4\<rparr>"
  let ?cfg = "default_config\<lparr>sample_rate := 20\<rparr>"
  have d: "loop_delay_of 20 = 48"
    by (simp add: loop_delay_of_def)
  have r: "read_loop two_turns 20 \<lparr>trace = [], reads = 0\<rparr> = Some ?w1"
    by code_simp
  let ?v = "\<lparr>trace =
         [Mpu9150_set_debug 0, Mpu9150_init 1 20 4,
          Printf ''Default accelcal.txt not found\<newline>'',
          Printf ''Default magcal.txt not found\<newline>'',
          Printf ''\<newline>Entering MPU read loop (ctrl-c to exit)\<newline>\<newline>'',
          Linux_delay_ms 48,
          Mpu9150_read, Ros_info 0 0, Publish (Some (0, 0)), SpinOnce, Rate_sleep,
          Mpu9150_read, Publish None, SpinOnce, Rate_sleep],
         reads = 2\<rparr>"
  have m: "node_main two_turns Map.empty ?cfg = Some (0, ?v)"
    by code_simp
  have e: "node_set_cal Map.empty 0 (accel_cal_file ?cfg) = (0, [Printf ''Default accelcal.txt not found\<newline>''])"
    "node_set_cal Map.empty 1 (mag_cal_file ?cfg) = (0, [Printf ''Default magcal.txt not found\<newline>''])"
    "node_loop_delay_of (sample_rate ?cfg) = 48"
    by code_simp+
  have c: "\<not> sigaction_rc two_turns <s 0" "init_rc two_turns = 0" "sample_rate ?cfg \<noteq> 0"
    by (simp_all add: two_turns_def default_config_def)
  note t = delay_fixed_in_console_loop_only
    [where rate = 20 and e = two_turns and w = "\<lparr>trace = [], reads = 0\<rparr>" and w' = "?w1"
       and cfg = "?cfg" and fs = Map.empty and st = 0 and v = "?v"]
  have nz: "(20 :: c_uint) \<noteq> 0"
    by simp
  from t nz r have s1: "\<exists>n. trace ?w1 = trace \<lparr>trace = [], reads = 0\<rparr>
         @ [Printf ''\<newline>Entering read loop (ctrl-c to exit)\<newline>\<newline>'',
            Linux_delay_ms (loop_delay_of 20)]
         @ concat (map (console_turn two_turns (loop_delay_of 20))
             [reads \<lparr>trace = [], reads = 0\<rparr>..<reads \<lparr>trace = [], reads = 0\<rparr> + n])
         @ [Printf ''\<newline>\<newline>'']"
    by blast
  from t c m have s2: "\<exists>n. trace ?v =
         [Mpu9150_set_debug (verbose ?cfg),
          Mpu9150_init (i2c_bus ?cfg) (sample_rate ?cfg) (yaw_mix_factor ?cfg)]
         @ snd (node_set_cal Map.empty 0 (accel_cal_file ?cfg))
         @ snd (node_set_cal Map.empty 1 (mag_cal_file ?cfg))
         @ [Printf ''\<newline>Entering MPU read loop (ctrl-c to exit)\<newline>\<newline>'',
            Linux_delay_ms (node_loop_delay_of (sample_rate ?cfg))]
         @ concat (map (\<lambda>j. node_turn two_turns j j) [0..<n])"
    by blast
  from s1 have t1: "\<exists>n. trace ?w1
          = [Printf ''\<newline>Entering read loop (ctrl-c to exit)\<newline>\<newline>'', Linux_delay_ms 48]
            @ concat (map (console_turn two_turns 48) [0..<n]) @ [Printf ''\<newline>\<newline>'']"
    unfolding d by simp
  from s2 have t2: "\<exists>n. run_trace (node_main two_turns Map.empty ?cfg)
          = [Mpu9150_set_debug 0, Mpu9150_init 1 20 4,
             Printf ''Default accelcal.txt not found\<newline>'',
             Printf ''Default magcal.txt not found\<newline>'',
             Printf ''\<newline>Entering MPU read loop (ctrl-c to exit)\<newline>\<newline>'',
             Linux_delay_ms 48]
            @ concat (map (\<lambda>j. node_turn two_turns j j) [0..<n])"
    unfolding m e run_trace_def by (simp add: default_config_def)
  from d r t1 t2 show ?thesis
    by simp
qed

section \<open>Calibration failures and the run\<close>




text \<open>
  C6 as stated fails: with an accelerometer file named on the command line that
  cannot be opened, the console program prints the \<^verbatim>\<open>perror\<close> diagnostic, goes on to
  the magnetometer file, samples, and returns 0.
\<close>

theorem missing_explicit_file_not_fatal:
  "main two_turns Map.empty (default_config\<lparr>accel_cal_file := Some ''missing.txt''\<rparr>)
     = Some (0, \<lparr>trace =
         [Mpu9150_set_debug 0, Mpu9150_init 1 10 4,
          Perror ''open(<cal-file>)'',
          Printf ''Default magcal.txt not found\<newline>'',
          Printf ''\<newline>Entering read loop (ctrl-c to exit)\<newline>\<newline>'',
          Linux_delay_ms 98, Mpu9150_read, Print_fused_euler_angles 0, Linux_delay_ms 98,
          Mpu9150_read, Linux_delay_ms 98, Printf ''\<newline>\<newline>'', Mpu9150_exit],
         reads = 2\<rparr>)"
  by code_simp

text \<open>
  C6, as amended. When a calibration path is given and the file cannot be opened,
  \<open>set_cal\<close> reports it with \<^verbatim>\<open>perror\<close> and returns -1 without calling a setter; when
  no path is given and the default file is absent it prints a note and returns 0
  without calling a setter. \<open>main\<close> drops both return values: whenever the handler
  is installed and the driver initialised, a run that ends has made the calls of
  the accelerometer slot, then those of the magnetometer slot, then those of
  \<open>read_loop\<close> at the configured rate (the banner, the delay and \<open>n\<close> sampling turns,
  for some \<open>n\<close>), then \<^verbatim>\<open>mpu9150_exit\<close>, and returns 0; and it does end once SIGINT
  arrives.
\<close>

theorem explicit_file_error_is_ignored:
  "(fs p = None \<longrightarrow> set_cal fs mag (Some p) = (- 1, [Perror ''open(<cal-file>)'']))
   \<and> (fs (cal_path mag None) = None \<longrightarrow>
        set_cal fs mag None
          = (0, [Printf (if mag \<noteq> 0 then ''Default magcal.txt not found\<newline>''
                         else ''Default accelcal.txt not found\<newline>'')]))
   \<and> (\<not> sigaction_rc e <s 0 \<and> init_rc e = 0 \<and> main e fs cfg = Some (st, w') \<longrightarrow>
        st = 0 \<and> (\<exists>w5 n.
          read_loop e (sample_rate cfg)
            \<lparr>trace = [Mpu9150_set_debug (verbose cfg),
                       Mpu9150_init (i2c_bus cfg) (sample_rate cfg) (yaw_mix_factor cfg)]
                      @ snd (set_cal fs 0 (accel_cal_file cfg))
                      @ snd (set_cal fs 1 (mag_cal_file cfg)),
             reads = 0\<rparr> = Some w5
          \<and> w' = call Mpu9150_exit w5
          \<and> trace w' =
              [Mpu9150_set_debug (verbose cfg),
               Mpu9150_init (i2c_bus cfg) (sample_rate cfg) (yaw_mix_factor cfg)]
              @ snd (set_cal fs 0 (accel_cal_file cfg)) @ snd (set_cal fs 1 (mag_cal_file cfg))
              @ read_loop_calls e (sample_rate cfg) n @ [Mpu9150_exit]))
   \<and> (\<not> sigaction_rc e <s 0 \<and> init_rc e = 0 \<and> sigint_at e = Some k \<longrightarrow>
        (\<exists>v. main e fs cfg = Some (0, v)))"
proof -
  have a: "set_cal fs mag (Some p) = (- 1, [Perror ''open(<cal-file>)''])" if "fs p = None"
    using that by (simp add: set_cal_def open_cal_def)
  have b: "set_cal fs mag None
      = (0, [Printf (if mag \<noteq> 0 then ''Default magcal.txt not found\<newline>''
                     else ''Default accelcal.txt not found\<newline>'')])"
    if "fs (cal_path mag None) = None"
    using that by (cases "mag = 0") (simp_all add: set_cal_def open_cal_def cal_path_def)
  show ?thesis
    using a b main_run [of e fs cfg st w'] main_returns [of e k fs cfg] by blast
qed

theorem explicit_file_error_is_ignored_witness:
  "set_cal Map.empty 0 (Some ''missing.txt'') = (- 1, [Perror ''open(<cal-file>)''])
   \<and> set_cal Map.empty 1 None = (0, [Printf ''Default magcal.txt not found\<newline>''])
   \<and> main two_turns Map.empty (default_config\<lparr>accel_cal_file := Some ''missing.txt''\<rparr>)
       = Some (0, \<lparr>trace =
           [Mpu9150_set_debug 0, Mpu9150_init 1 10 4,
            Perror ''open(<cal-file>)'',
            Printf ''Default magcal.txt not found\<newline>'',
            Printf ''\<newline>Entering read loop (ctrl-c to exit)\<newline>\<newline>'',
            Linux_delay_ms 98, Mpu9150_read, Print_fused_euler_angles 0, Linux_delay_ms 98,
            Mpu9150_read, Linux_delay_ms 98, Printf ''\<newline>\<newline>'', Mpu9150_exit],
           reads = 2\<rparr>)
   \<and> (\<exists>n. [Mpu9150_set_debug 0, Mpu9150_init 1 10 4,
            Perror ''open(<cal-file>)'',
            Printf ''Default magcal.txt not found\<newline>'',
            Printf ''\<newline>Entering read loop (ctrl-c to exit)\<newline>\<newline>'',
            Linux_delay_ms 98, Mpu9150_read, Print_fused_euler_angles 0, Linux_delay_ms 98,
            Mpu9150_read, Linux_delay_ms 98, Printf ''\<newline>\<newline>'', Mpu9150_exit]
          = [Mpu9150_set_debug 0, Mpu9150_init 1 10 4,
             Perror ''open(<cal-file>)'', Printf ''Default magcal.txt not found\<newline>'']
            @ read_loop_calls two_turns 10 n @ [Mpu9150_exit])
   \<and> read_loop_calls two_turns 10 2
       = [Printf ''\<newline>Entering read loop (ctrl-c to exit)\<newline>\<newline>'',
          Linux_delay_ms 98, Mpu9150_read, Print_fused_euler_angles 0, Linux_delay_ms 98,
          Mpu9150_read, Linux_delay_ms 98, Printf ''\<newline>\<newline>'']
   \<and> (\<exists>v. main two_turns Map.empty (default_config\<lparr>accel_cal_file := Some ''missing.txt''\<rparr>)
          = Some (0, v))"
proof -
  let ?cfg = "default_config\<lparr>accel_cal_file := Some ''missing.txt''\<rparr>"
  let ?w = "\<lparr>trace =
           [Mpu9150_set_debug 0, Mpu9150_init 1 10 4,
            Perror ''open(<cal-file>)'',
            Printf ''Default magcal.txt not found\<newline>'',
            Printf ''\<newline>Entering read loop (ctrl-c to exit)\<newline>\<newline>'',
            Linux_delay_ms 98, Mpu9150_read, Print_fused_euler_angles 0, Linux_delay_ms 98,
            Mpu9150_read, Linux_delay_ms 98, Printf ''\<newline>\<newline>'', Mpu9150_exit],
           reads = 2\<rparr>"
  note t = explicit_file_error_is_ignored
    [where fs = Map.empty and p = "''missing.txt''" and mag = 0 and e = two_turns
       and cfg = "?cfg" and st = 0 and w' = "?w" and k = 11]
  note u = explicit_file_error_is_ignored
    [where fs = Map.empty and p = "''missing.txt''" and mag = 1 and e = two_turns
       and cfg = "?cfg" and st = 0 and w' = "?w" and k = 11]
  have c: "\<not> sigaction_rc two_turns <s 0" "init_rc two_turns = 0" "sigint_at two_turns = Some 11"
    by (simp_all add: two_turns_def)
  have m: "main two_turns Map.empty ?cfg = Some (0, ?w)"
    by code_simp
  have f: "Map.empty ''missing.txt'' = (None :: string option)"
      "Map.empty (cal_path 1 None) = (None :: string option)"
    by simp_all
  from t f(1) have a: "set_cal Map.empty 0 (Some ''missing.txt'') = (- 1, [Perror ''open(<cal-file>)''])"
    by blast
  from u f(2) have "set_cal Map.empty 1 None
          = (0, [Printf (if (1 :: c_int) \<noteq> 0 then ''Default magcal.txt not found\<newline>''
                         else ''Default accelcal.txt not found\<newline>'')])"
    by blast
  then have b: "set_cal Map.empty 1 None = (0, [Printf ''Default magcal.txt not found\<newline>''])"
    by simp
  from t c have r: "\<exists>v. main two_turns Map.empty ?cfg = Some (0, v)"
    by blast
  from t c m have "\<exists>w5 n.
          read_loop two_turns (sample_rate ?cfg)
            \<lparr>trace = [Mpu9150_set_debug (verbose ?cfg),
                       Mpu9150_init (i2c_bus ?cfg) (sample_rate ?cfg) (yaw_mix_factor ?cfg)]
                      @ snd (set_cal Map.empty 0 (accel_cal_file ?cfg))
                      @ snd (set_cal Map.empty 1 (mag_cal_file ?cfg)),
             reads = 0\<rparr> = Some w5
          \<and> ?w = call Mpu9150_exit w5
          \<and> trace ?w =
              [Mpu9150_set_debug (verbose ?cfg),
               Mpu9150_init (i2c_bus ?cfg) (sample_rate ?cfg) (yaw_mix_factor ?cfg)]
              @ snd (set_cal Map.empty 0 (accel_cal_file ?cfg))
              @ snd (set_cal Map.empty 1 (mag_cal_file ?cfg))
              @ read_loop_calls two_turns (sample_rate ?cfg) n @ [Mpu9150_exit]"
    by blast
  then have "\<exists>n. trace ?w =
              [Mpu9150_set_debug (verbose ?cfg),
               Mpu9150_init (i2c_bus ?cfg) (sample_rate ?cfg) (yaw_mix_factor ?cfg)]
              @ snd (set_cal Map.empty 0 (accel_cal_file ?cfg))
              @ snd (set_cal Map.empty 1 (mag_cal_file ?cfg))
              @ read_loop_calls two_turns (sample_rate ?cfg) n @ [Mpu9150_exit]"
    by blast
  then have s: "\<exists>n. trace ?w
          = [Mpu9150_set_debug 0, Mpu9150_init 1 10 4,
             Perror ''open(<cal-file>)'', Printf ''Default magcal.txt not found\<newline>'']
            @ read_loop_calls two_turns 10 n @ [Mpu9150_exit]"
    by (simp add: default_config_def a b)
  have l: "read_loop_calls two_turns 10 2
       = [Printf ''\<newline>Entering read loop (ctrl-c to exit)\<newline>\<newline>'',
          Linux_delay_ms 98, Mpu9150_read, Print_fused_euler_angles 0, Linux_delay_ms 98,
          Mpu9150_read, Linux_delay_ms 98, Printf ''\<newline>\<newline>'']"
    by code_simp
  from a b m s l r show ?thesis
    by simp
qed

end
